theory Spec2Isabelle
  imports Complex_Main "HOL-Library.Multiset"
begin

section \<open>Semantic place search: the ranking core of \<open>2v/step2_search.py\<close>\<close>

text \<open>
  The development embeds the class \<open>SemanticSearch\<close> of \<open>2v/step2_search.py\<close> together
  with the module functions \<open>sentiment_to_weight\<close> and \<open>normalize_text\<close> and the three
  defaults of \<open>2v/config.py\<close>.

  Conventions of the embedding.
  \<^item> A pandas DataFrame is the list of its rows; the empty DataFrame is \<open>[]\<close>.
  \<^item> The float columns are exact reals: products, sums, quotients, \<open>log1p\<close> and \<open>sqrt\<close>
    are the mathematical operations, without rounding.
  \<^item> A Python \<open>str\<close> is a \<open>string\<close>; one \<open>char\<close> stands for one code point.
  \<^item> A cell that may hold NaN is an \<open>option\<close>, with \<open>None\<close> for NaN.
  \<^item> The external collaborators (sentence encoder and FAISS index, sentiment pipeline,
    \<open>unicodedata.normalize\<close>) are fields of the environment record: arbitrary functions.
  \<^item> A method of the class takes the mutable attributes of \<open>self\<close> as a \<open>session\<close> and
    returns the session it leaves behind, also when it raises.
\<close>

subsection \<open>Data model\<close>

datatype error =
    InvalidQuery          \<comment> \<open>\<open>ValueError\<close> raised for an empty normalized query\<close>
  | InvalidAggregation    \<comment> \<open>\<open>ValueError\<close> raised for an unknown aggregation method\<close>
  | IndexError            \<comment> \<open>raised by \<open>iloc\<close> for a position outside the frame\<close>

text \<open>A row of \<open>reviews_df\<close>: the place reference and the column named by \<open>text_column\<close>.\<close>

record review =
  review_place :: "int option"
  review_text :: "string option"

text \<open>A row of \<open>places_df\<close>.\<close>

record place =
  firm_id :: int
  name :: "string option"
  address :: "string option"
  category :: "string option"
  rating :: "real option"

text \<open>
  A row of the frame that \<open>search_reviews\<close> builds: the review's columns and the six
  columns added by the scorer. \<open>review_id\<close> is the position of the review in
  \<open>reviews_df\<close>. The place reference of a scored row is never NaN (line 154), so it is
  stored as the integer that line 237 casts it to.
\<close>

record scored_review =
  review_id :: nat
  place_firm_id :: int
  text_col :: "string option"
  similarity_score :: real
  sentiment_label :: string
  sentiment_score :: real
  sentiment_weight :: real
  sentiment_alignment :: real
  final_review_score :: real

text \<open>A row of \<open>place_scores\<close> (lines 252 to 301).\<close>

record place_scores =
  ps_place_firm_id :: int
  avg_score :: real
  max_score :: real
  review_count :: nat
  total_score :: real
  positive_reviews :: nat
  negative_reviews :: nat
  neutral_reviews :: nat
  final_score :: real

text \<open>
  A row of the merged frame (line 314): the columns of \<open>place_scores\<close> and the columns of
  the matching row of \<open>places_df\<close>, all NaN (\<open>None\<close>) when the left join finds no match.
\<close>

record place_result =
  scores :: place_scores
  info :: "place option"

definition result_name :: "place_result \<Rightarrow> string option" where
  "result_name r = (case info r of None \<Rightarrow> None | Some p \<Rightarrow> name p)"

text \<open>
  The mutable attributes of the searcher. \<open>index_calls\<close> is not an attribute of the
  class: it counts the calls of \<open>self.index.search\<close>, as the call counter of a mock index
  does.
\<close>

record session =
  last_relevant_reviews :: "scored_review list option"
  last_query_sentiment :: "string option"
  index_calls :: nat

text \<open>
  What the searcher loads in \<open>__init__\<close> and never changes. \<open>index_search q k\<close> stands for
  encoding the normalized query \<open>q\<close>, L2-normalizing the vector and calling
  \<open>self.index.search\<close> with \<open>k\<close>: the list of (position, inner product) pairs of row 0.
\<close>

record env =
  reviews_df :: "review list"
  places_df :: "place list"
  ntotal :: int
  index_search :: "string \<Rightarrow> int \<Rightarrow> (int \<times> real) list"
  sentiment_model :: "string \<Rightarrow> string \<times> real"
  nfkc :: "string \<Rightarrow> string"

definition DEFAULT_TOP_K :: int where
  "DEFAULT_TOP_K = 10"

definition DEFAULT_MIN_REVIEWS :: int where
  "DEFAULT_MIN_REVIEWS = 3"

definition DEFAULT_AGGREGATION :: string where
  "DEFAULT_AGGREGATION = ''weighted''"

subsection \<open>Strings\<close>

text \<open>The characters \<open>str.split\<close> and \<open>str.strip\<close> treat as whitespace, up to U+00FF.\<close>

definition is_space :: "char \<Rightarrow> bool" where
  "is_space c \<longleftrightarrow> c \<in> set [CHR 0x09, CHR 0x0A, CHR 0x0B, CHR 0x0C, CHR 0x0D,
     CHR 0x1C, CHR 0x1D, CHR 0x1E, CHR 0x1F, CHR 0x20, CHR 0x85, CHR 0xA0]"

text \<open>\<open>text.split()\<close>: the maximal runs of non-whitespace; \<open>w\<close> is the run being read.\<close>

fun split_from :: "string \<Rightarrow> string \<Rightarrow> string list" where
  "split_from w [] = (if w = [] then [] else [w])"
| "split_from w (c # cs) =
     (if is_space c then (if w = [] then split_from [] cs else w # split_from [] cs)
      else split_from (w @ [c]) cs)"

definition py_split :: "string \<Rightarrow> string list" where
  "py_split t = split_from [] t"

fun py_join :: "string \<Rightarrow> string list \<Rightarrow> string" where
  "py_join sep [] = []"
| "py_join sep [w] = w"
| "py_join sep (w # v # ws) = w @ sep @ py_join sep (v # ws)"

definition py_strip :: "string \<Rightarrow> string" where
  "py_strip t = rev (dropWhile is_space (rev (dropWhile is_space t)))"

text \<open>\<open>str.lower\<close> on the ASCII letters.\<close>

definition lower_char :: "char \<Rightarrow> char" where
  "lower_char c =
     (case map_of (zip ''ABCDEFGHIJKLMNOPQRSTUVWXYZ'' ''abcdefghijklmnopqrstuvwxyz'') c of
        None \<Rightarrow> c | Some d \<Rightarrow> d)"

definition lower :: "string \<Rightarrow> string" where
  "lower t = map lower_char t"

text \<open>
  \<open>normalize_text\<close> (lines 412 to 427) for a \<open>str\<close> argument: NFKC, the UTF-8 round trip
  (the identity on well-formed text), and the collapse of whitespace.
\<close>

definition normalize_text :: "env \<Rightarrow> string \<Rightarrow> string" where
  "normalize_text e t = py_join '' '' (py_split (nfkc e t))"

subsection \<open>The review scorer\<close>

text \<open>\<open>sentiment_to_weight\<close> (lines 399 to 409): a dictionary lookup with default 1.0.\<close>

definition sentiment_to_weight :: "string \<Rightarrow> real" where
  "sentiment_to_weight label =
     (case map_of [(''positive'', 1.2), (''neutral'', 1.0), (''negative'', 0.8)] (lower label) of
        None \<Rightarrow> 1.0 | Some w \<Rightarrow> w)"

text \<open>\<open>align_sentiment\<close> (lines 173 to 193), with the query sentiment as first argument.\<close>

definition align_sentiment :: "string \<Rightarrow> string \<Rightarrow> real" where
  "align_sentiment query_sentiment review_sent =
     (if query_sentiment = ''negative'' then
        (if review_sent = ''positive'' then 0.05
         else if review_sent = ''negative'' then 2.5
         else 0.5)
      else if query_sentiment = ''positive'' then
        (if review_sent = ''negative'' then 0.05
         else if review_sent = ''positive'' then 2.0
         else 0.7)
      else 1.0)"

text \<open>\<open>_get_query_sentiment\<close> (lines 109 to 112).\<close>

definition get_query_sentiment :: "env \<Rightarrow> string \<Rightarrow> string" where
  "get_query_sentiment e query = lower (fst (sentiment_model e (take 512 query)))"

text \<open>\<open>min_score\<close> of line 205.\<close>

definition min_score :: "string \<Rightarrow> real" where
  "min_score query_sentiment = (if query_sentiment = ''negative'' then 0.15 else 0.20)"

text \<open>
  \<open>DataFrame.nlargest(n, column)\<close> with \<open>keep='first'\<close>: the \<open>n\<close> rows of largest value in
  descending order, rows of equal value in their original order; no row for \<open>n \<le> 0\<close>.
  \<open>sort_values(column, ascending=False)\<close> is the same descending sort of all rows.
\<close>

definition sort_desc :: "('a \<Rightarrow> real) \<Rightarrow> 'a list \<Rightarrow> 'a list" where
  "sort_desc f xs = sort_key (\<lambda>x. - f x) xs"

definition nlargest :: "int \<Rightarrow> ('a \<Rightarrow> real) \<Rightarrow> 'a list \<Rightarrow> 'a list" where
  "nlargest n f xs = (if n \<le> 0 then [] else take (nat n) (sort_desc f xs))"

text \<open>
  \<open>reviews_df.iloc[valid_indices]\<close> paired with \<open>valid_distances\<close> (lines 150 and 151): a
  negative position counts from the end, and a position outside the frame raises.
\<close>

fun iloc_rows :: "review list \<Rightarrow> (int \<times> real) list \<Rightarrow> error + (nat \<times> review \<times> real) list" where
  "iloc_rows df [] = Inr []"
| "iloc_rows df ((i, d) # hits) =
     (let n = int (length df); j = (if i < 0 then n + i else i)
      in if 0 \<le> j \<and> j < n then
           (case iloc_rows df hits of
              Inl err \<Rightarrow> Inl err
            | Inr rows \<Rightarrow> Inr ((nat j, df ! nat j, d) # rows))
         else Inl IndexError)"

text \<open>Line 154, and the cast of line 237: the rows whose place reference is not NaN.\<close>

fun with_place :: "(nat \<times> review \<times> real) list \<Rightarrow> (nat \<times> int \<times> review \<times> real) list" where
  "with_place [] = []"
| "with_place ((j, r, d) # rows) =
     (case review_place r of
        None \<Rightarrow> with_place rows
      | Some p \<Rightarrow> (j, p, r, d) # with_place rows)"

text \<open>Lines 161 to 202 for one row.\<close>

definition score_row :: "env \<Rightarrow> string \<Rightarrow> nat \<times> int \<times> review \<times> real \<Rightarrow> scored_review" where
  "score_row e query_sentiment row =
     (case row of (j, p, r, d) \<Rightarrow>
        let t = take 512 (case review_text r of None \<Rightarrow> [] | Some t \<Rightarrow> t);
            s = sentiment_model e t;
            label = lower (fst s);
            w = sentiment_to_weight label;
            a = align_sentiment query_sentiment label
        in \<lparr> review_id = j, place_firm_id = p, text_col = review_text r,
             similarity_score = d, sentiment_label = label, sentiment_score = snd s,
             sentiment_weight = w, sentiment_alignment = a,
             final_review_score = d * w * a \<rparr>)"

text \<open>The threshold filter of lines 205 and 206.\<close>

definition threshold_filter :: "string \<Rightarrow> scored_review list \<Rightarrow> scored_review list" where
  "threshold_filter query_sentiment results =
     filter (\<lambda>r. final_review_score r > min_score query_sentiment) results"

text \<open>\<open>SemanticSearch.search_reviews\<close> (lines 114 to 214).\<close>

definition search_reviews ::
  "env \<Rightarrow> session \<Rightarrow> string \<Rightarrow> int \<Rightarrow> (error + scored_review list) \<times> session" where
  "search_reviews e s query top_k =
     (let query = normalize_text e query in
      if length query = 0 then (Inl InvalidQuery, s)
      else
        let query_sentiment = get_query_sentiment e query;
            s = s\<lparr>last_query_sentiment := Some query_sentiment\<rparr>;
            search_k = min (top_k * 5) (ntotal e);
            hits = index_search e query search_k;
            s = s\<lparr>index_calls := index_calls s + 1\<rparr>;
            valid = filter (\<lambda>(i, d). i < int (length (reviews_df e))) hits
        in if length valid = 0 then (Inr [], s)
           else
             (case iloc_rows (reviews_df e) valid of
                Inl err \<Rightarrow> (Inl err, s)
              | Inr rows \<Rightarrow>
                  let results = with_place rows in
                  if results = [] then (Inr [], s)
                  else
                    let results = map (score_row e query_sentiment) results;
                        results = threshold_filter query_sentiment results
                    in if results = [] then (Inr [], s)
                       else (Inr (nlargest top_k final_review_score results), s)))"

subsection \<open>The place aggregator\<close>

text \<open>
  \<open>groupby("place_firm_id").head(n)\<close> (lines 243 and 244): the rows stay in their order,
  and a row is kept when fewer than \<open>n\<close> rows of its place precede it. \<open>seen\<close> holds
  the place ids of the rows already passed.
\<close>

fun group_head :: "nat \<Rightarrow> int list \<Rightarrow> scored_review list \<Rightarrow> scored_review list" where
  "group_head n seen [] = []"
| "group_head n seen (r # rs) =
     (if count_list seen (place_firm_id r) < n
      then r # group_head n (place_firm_id r # seen) rs
      else group_head n (place_firm_id r # seen) rs)"

text \<open>Lines 240 to 245: at most 15 reviews of a place, the first of the descending order.\<close>

definition per_place_cap :: "scored_review list \<Rightarrow> scored_review list" where
  "per_place_cap relevant_reviews =
     group_head 15 [] (sort_desc final_review_score relevant_reviews)"

text \<open>The group keys of \<open>groupby('place_firm_id')\<close>: the distinct place ids, ascending.\<close>

definition group_keys :: "scored_review list \<Rightarrow> int list" where
  "group_keys rs = sort (remdups (map place_firm_id rs))"

text \<open>\<open>max\<close> of a group's scores; a group is never empty.\<close>

fun score_max :: "real list \<Rightarrow> real" where
  "score_max [] = 0"
| "score_max [x] = x"
| "score_max (x # y # ys) = max x (score_max (y # ys))"

text \<open>
  One row of the aggregation of lines 252 to 265. The column \<open>final_score\<close> does not exist
  before step 4; it is 0 until then.
\<close>

definition aggregate_place :: "scored_review list \<Rightarrow> int \<Rightarrow> place_scores" where
  "aggregate_place rs p =
     (let rows = filter (\<lambda>r. place_firm_id r = p) rs;
          xs = map final_review_score rows
      in \<lparr> ps_place_firm_id = p,
           avg_score = sum_list xs / real (length xs),
           max_score = score_max xs,
           review_count = length xs,
           total_score = sum_list xs,
           positive_reviews = length (filter (\<lambda>r. sentiment_label r = ''positive'') rows),
           negative_reviews = length (filter (\<lambda>r. sentiment_label r = ''negative'') rows),
           neutral_reviews = length (filter (\<lambda>r. sentiment_label r = ''neutral'') rows),
           final_score = 0 \<rparr>)"

text \<open>
  \<open>np.log1p\<close> and \<open>np.sqrt\<close>. Neither has a code equation: an evaluation leaves their
  applications as they are.
\<close>

definition log1p :: "real \<Rightarrow> real" where
  [code del]: "log1p x = ln (1 + x)"

definition np_sqrt :: "real \<Rightarrow> real" where
  [code del]: "np_sqrt x = sqrt x"

text \<open>Lines 284 to 295.\<close>

definition sentiment_ratio :: "string \<Rightarrow> place_scores \<Rightarrow> real" where
  "sentiment_ratio query_sentiment ps =
     (if query_sentiment = ''negative''
      then (real (negative_reviews ps) + 1) / (real (positive_reviews ps) + real (neutral_reviews ps) + 1)
      else (real (positive_reviews ps) + 1) / (real (negative_reviews ps) + 1))"

text \<open>Step 4 (lines 276 to 303): the strategy is chosen by name, an unknown name raises.\<close>

definition set_final_score ::
  "string \<Rightarrow> string \<Rightarrow> place_scores list \<Rightarrow> error + place_scores list" where
  "set_final_score aggregation query_sentiment pss =
     (if aggregation = ''mean'' then
        Inr (map (\<lambda>ps. ps\<lparr>final_score := avg_score ps\<rparr>) pss)
      else if aggregation = ''max'' then
        Inr (map (\<lambda>ps. ps\<lparr>final_score := max_score ps\<rparr>) pss)
      else if aggregation = ''weighted'' then
        Inr (map (\<lambda>ps. ps\<lparr>final_score :=
               avg_score ps * log1p (real (review_count ps))
                 * np_sqrt (sentiment_ratio query_sentiment ps)\<rparr>) pss)
      else Inl InvalidAggregation)"

text \<open>
  The left join of line 314: a row of \<open>place_scores\<close> yields one row for each place of
  that \<open>firm_id\<close>, in the order of \<open>places_df\<close>, and one row without place columns when
  there is none.
\<close>

definition merge_row :: "place list \<Rightarrow> place_scores \<Rightarrow> place_result list" where
  "merge_row places ps =
     (let ms = filter (\<lambda>p. firm_id p = ps_place_firm_id ps) places
      in if ms = [] then [\<lparr> scores = ps, info = None \<rparr>]
         else map (\<lambda>p. \<lparr> scores = ps, info = Some p \<rparr>) ms)"

definition merge_places :: "place_scores list \<Rightarrow> place list \<Rightarrow> place_result list" where
  "merge_places pss places = concat (map (merge_row places) pss)"

text \<open>
  \<open>drop_duplicates(subset=['name'], keep='first')\<close>; two NaN names count as equal.
  \<open>seen\<close> holds the names of the rows already passed.
\<close>

fun drop_duplicates :: "string option list \<Rightarrow> place_result list \<Rightarrow> place_result list" where
  "drop_duplicates seen [] = []"
| "drop_duplicates seen (r # rs) =
     (if result_name r \<in> set seen then drop_duplicates seen rs
      else r # drop_duplicates (result_name r # seen) rs)"

text \<open>Line 327: the name is not NaN and is not the text \<open>nan\<close>.\<close>

definition has_name :: "place_result \<Rightarrow> bool" where
  "has_name r = (case result_name r of None \<Rightarrow> False | Some n \<Rightarrow> n \<noteq> ''nan'')"

text \<open>\<open>DataFrame.head(n)\<close>: the first \<open>n\<close> rows, all but the last \<open>-n\<close> for a negative \<open>n\<close>.\<close>

definition py_head :: "int \<Rightarrow> 'a list \<Rightarrow> 'a list" where
  "py_head n xs = (if 0 \<le> n then take (nat n) xs else take (length xs - nat (- n)) xs)"

text \<open>\<open>x or default\<close> for an optional integer and for an optional string.\<close>

definition or_int :: "int option \<Rightarrow> int \<Rightarrow> int" where
  "or_int x d = (case x of None \<Rightarrow> d | Some v \<Rightarrow> if v = 0 then d else v)"

definition or_str :: "string option \<Rightarrow> string \<Rightarrow> string" where
  "or_str x d = (case x of None \<Rightarrow> d | Some v \<Rightarrow> if v = [] then d else v)"

text \<open>Steps 2 to 7 of \<open>search_places\<close> (lines 249 to 342), after the cache is written.\<close>

definition rank_places ::
  "env \<Rightarrow> session \<Rightarrow> scored_review list \<Rightarrow> int \<Rightarrow> int \<Rightarrow> string \<Rightarrow> error + place_result list" where
  "rank_places e s relevant_reviews top_k min_reviews aggregation =
     (let query_sentiment = or_str (last_query_sentiment s) ''neutral'';
          place_scores = map (aggregate_place relevant_reviews) (group_keys relevant_reviews);
          place_scores = filter (\<lambda>ps. int (review_count ps) \<ge> min_reviews) place_scores
      in if length place_scores = 0 then Inr []
         else
           (case set_final_score aggregation query_sentiment place_scores of
              Inl err \<Rightarrow> Inl err
            | Inr place_scores \<Rightarrow>
                let place_scores = nlargest (top_k * 2) final_score place_scores;
                    results = merge_places place_scores (places_df e);
                    results = drop_duplicates [] results;
                    results = filter has_name results;
                    results = py_head top_k results
                in Inr results))"

text \<open>\<open>SemanticSearch.search_places\<close> (lines 216 to 342).\<close>

definition search_places ::
  "env \<Rightarrow> session \<Rightarrow> string \<Rightarrow> int option \<Rightarrow> int option \<Rightarrow> string option
     \<Rightarrow> (error + place_result list) \<times> session" where
  "search_places e s query top_k min_reviews aggregation =
     (let top_k = or_int top_k DEFAULT_TOP_K;
          min_reviews = or_int min_reviews DEFAULT_MIN_REVIEWS;
          aggregation = or_str aggregation DEFAULT_AGGREGATION
      in case search_reviews e s query 300 of
           (Inl err, s) \<Rightarrow> (Inl err, s)
         | (Inr relevant_reviews, s) \<Rightarrow>
             if relevant_reviews = [] then (Inr [], s)
             else
               let relevant_reviews = per_place_cap relevant_reviews;
                   s = s\<lparr>last_relevant_reviews := Some relevant_reviews\<rparr>
               in (rank_places e s relevant_reviews top_k min_reviews aggregation, s))"

subsection \<open>Reading the session cache\<close>

definition indicator :: "string \<Rightarrow> string" where
  "indicator sentiment =
     (case map_of [(''positive'', ''[+]''), (''negative'', ''[-]''), (''neutral'', ''[~]'')] sentiment of
        None \<Rightarrow> [] | Some i \<Rightarrow> i)"

text \<open>The body of the loop of lines 368 to 374: what one row appends to \<open>highlights\<close>.\<close>

definition highlight_row :: "env \<Rightarrow> scored_review \<Rightarrow> string list" where
  "highlight_row e row =
     (case text_col row of
        None \<Rightarrow> []
      | Some t \<Rightarrow>
          if length (py_strip t) > 20
          then [indicator (sentiment_label row) @ '' '' @ normalize_text e t]
          else [])"

text \<open>\<open>SemanticSearch.get_place_highlights\<close> (lines 344 to 376).\<close>

definition get_place_highlights ::
  "env \<Rightarrow> session \<Rightarrow> int \<Rightarrow> int \<Rightarrow> string list \<times> session" where
  "get_place_highlights e s pid top_k =
     (case last_relevant_reviews s of
        None \<Rightarrow> ([], s)
      | Some cached \<Rightarrow>
          if cached = [] then ([], s)
          else
            let place_reviews = filter (\<lambda>r. place_firm_id r = pid) cached in
            if length place_reviews = 0 then ([], s)
            else
              let top_reviews = nlargest top_k final_review_score place_reviews
              in (concat (map (highlight_row e) top_reviews), s))"

text \<open>
  \<open>SemanticSearch.get_place_sentiment_stats\<close> (lines 378 to 396): the counts of positive,
  negative and neutral cached reviews of the place.
\<close>

definition get_place_sentiment_stats ::
  "session \<Rightarrow> int \<Rightarrow> (nat \<times> nat \<times> nat) \<times> session" where
  "get_place_sentiment_stats s pid =
     (case last_relevant_reviews s of
        None \<Rightarrow> ((0, 0, 0), s)
      | Some cached \<Rightarrow>
          let place_reviews = filter (\<lambda>r. place_firm_id r = pid) cached in
          if place_reviews = [] then ((0, 0, 0), s)
          else ((length (filter (\<lambda>r. sentiment_label r = ''positive'') place_reviews),
                 length (filter (\<lambda>r. sentiment_label r = ''negative'') place_reviews),
                 length (filter (\<lambda>r. sentiment_label r = ''neutral'') place_reviews)), s))"

subsection \<open>A small corpus\<close>

text \<open>
  Six reviews of two places and a classifier that reads the first character of a text.
  Reviews 0 and 1 are the scenario of the specification: similarity 0.9, one negative
  and one positive review of the same place. The index answers the query
  \<open>quiet place\<close> with three other similarities, one of them negative; 0.25 and 0.5 are
  values that a 32-bit float holds exactly.
\<close>

definition demo_reviews :: "review list" where
  "demo_reviews =
     [\<lparr> review_place = Some 7, review_text = Some ''- the service was terribly slow'' \<rparr>,
      \<lparr> review_place = Some 7, review_text = Some ''+ lovely coffee and a cozy room'' \<rparr>,
      \<lparr> review_place = Some 7, review_text = Some ''- cold food'' \<rparr>,
      \<lparr> review_place = None, review_text = Some ''- nobody knows where this was'' \<rparr>,
      \<lparr> review_place = Some 9, review_text = None \<rparr>,
      \<lparr> review_place = Some 7, review_text = Some ''- awful'' \<rparr>]"

definition demo_places :: "place list" where
  "demo_places =
     [\<lparr> firm_id = 7, name = Some ''Cafe Seven'', address = Some ''Main 1'',
        category = None, rating = Some 4.5 \<rparr>,
      \<lparr> firm_id = 9, name = Some ''Nine Bar'', address = None,
        category = None, rating = None \<rparr>]"

definition demo_model :: "string \<Rightarrow> string \<times> real" where
  "demo_model t =
     (case t of
        [] \<Rightarrow> (''NEUTRAL'', 0.5)
      | c # cs \<Rightarrow>
          if c = CHR ''+'' then (''POSITIVE'', 0.9)
          else if c = CHR ''-'' then (''NEGATIVE'', 0.8)
          else (''NEUTRAL'', 0.6))"

definition demo_hits :: "string \<Rightarrow> int \<Rightarrow> (int \<times> real) list" where
  "demo_hits q k =
     (if q = ''nothing here'' then []
      else if q = ''quiet place'' then take (nat k) [(0, - 0.75), (2, 0.25), (4, 0.5)]
      else take (nat k) [(0, 0.9), (1, 0.9), (2, 0.0625), (3, 0.8), (4, 0.5), (5, 0.95)])"

definition demo_env :: env where
  "demo_env = \<lparr> reviews_df = demo_reviews, places_df = demo_places, ntotal = 6,
      index_search = demo_hits, sentiment_model = demo_model, nfkc = (\<lambda>t. t) \<rparr>"

text \<open>The session that \<open>__init__\<close> leaves (lines 102 and 103).\<close>

definition fresh :: session where
  "fresh = \<lparr> last_relevant_reviews = None, last_query_sentiment = None, index_calls = 0 \<rparr>"

text \<open>The three rows that the query \<open>- bad service\<close> retains, in descending order.\<close>

definition row5 :: scored_review where
  "row5 = \<lparr> review_id = 5, place_firm_id = 7, text_col = Some ''- awful'',
      similarity_score = 0.95, sentiment_label = ''negative'', sentiment_score = 0.8,
      sentiment_weight = 0.8, sentiment_alignment = 2.5, final_review_score = 1.9 \<rparr>"

definition row0 :: scored_review where
  "row0 = \<lparr> review_id = 0, place_firm_id = 7,
      text_col = Some ''- the service was terribly slow'',
      similarity_score = 0.9, sentiment_label = ''negative'', sentiment_score = 0.8,
      sentiment_weight = 0.8, sentiment_alignment = 2.5, final_review_score = 1.8 \<rparr>"

definition row4 :: scored_review where
  "row4 = \<lparr> review_id = 4, place_firm_id = 9, text_col = None,
      similarity_score = 0.5, sentiment_label = ''neutral'', sentiment_score = 0.5,
      sentiment_weight = 1, sentiment_alignment = 0.5, final_review_score = 0.25 \<rparr>"

text \<open>The session after that query.\<close>

definition searched :: session where
  "searched = \<lparr> last_relevant_reviews = Some [row5, row0, row4],
      last_query_sentiment = Some ''negative'', index_calls = 1 \<rparr>"

text \<open>
  The neutral query \<open>quiet place\<close>: review 2 scores \<open>0.25 * 0.8 * 1.0\<close>, the threshold 0.20
  itself, and review 4 is the one row that the query retains.
\<close>

definition row2 :: scored_review where
  "row2 = \<lparr> review_id = 2, place_firm_id = 7, text_col = Some ''- cold food'',
      similarity_score = 0.25, sentiment_label = ''negative'', sentiment_score = 0.8,
      sentiment_weight = 0.8, sentiment_alignment = 1, final_review_score = 0.2 \<rparr>"

definition row4_neutral :: scored_review where
  "row4_neutral = \<lparr> review_id = 4, place_firm_id = 9, text_col = None,
      similarity_score = 0.5, sentiment_label = ''neutral'', sentiment_score = 0.5,
      sentiment_weight = 1, sentiment_alignment = 1, final_review_score = 0.5 \<rparr>"

definition quiet_session :: session where
  "quiet_session = \<lparr> last_relevant_reviews = None, last_query_sentiment = Some ''neutral'',
      index_calls = 1 \<rparr>"

text \<open>What the weighted ranking returns for that query when two reviews suffice.\<close>

definition cafe :: place where
  "cafe = \<lparr> firm_id = 7, name = Some ''Cafe Seven'', address = Some ''Main 1'',
      category = None, rating = Some 4.5 \<rparr>"

definition cafe_scores :: place_scores where
  "cafe_scores = \<lparr> ps_place_firm_id = 7, avg_score = 1.85, max_score = 1.9, review_count = 2,
      total_score = 3.7, positive_reviews = 0, negative_reviews = 2, neutral_reviews = 0,
      final_score = 1.85 * log1p 2 * np_sqrt 3 \<rparr>"

definition cafe_row :: place_result where
  "cafe_row = \<lparr> scores = cafe_scores, info = Some cafe \<rparr>"

subsection \<open>A busy place\<close>

text \<open>
  Seventeen positive reviews of one place, of similarity 1.00 down to 0.84: two more than
  the cap admits.
\<close>

definition busy_reviews :: "review list" where
  "busy_reviews = replicate 17 \<lparr> review_place = Some 1, review_text = Some ''+ fine'' \<rparr>"

definition busy_hits :: "string \<Rightarrow> int \<Rightarrow> (int \<times> real) list" where
  "busy_hits q k = take (nat k) (map (\<lambda>i. (int i, 1 - real i / 100)) [0..<17])"

definition bistro :: place where
  "bistro = \<lparr> firm_id = 1, name = Some ''Bistro One'', address = None, category = None,
      rating = None \<rparr>"

definition busy_env :: env where
  "busy_env = \<lparr> reviews_df = busy_reviews, places_df = [bistro], ntotal = 17,
      index_search = busy_hits, sentiment_model = demo_model, nfkc = (\<lambda>t. t) \<rparr>"

definition busy_row :: "nat \<Rightarrow> scored_review" where
  "busy_row i = \<lparr> review_id = i, place_firm_id = 1, text_col = Some ''+ fine'',
      similarity_score = 1 - real i / 100, sentiment_label = ''positive'',
      sentiment_score = 0.9, sentiment_weight = 1.2, sentiment_alignment = 2.0,
      final_review_score = (1 - real i / 100) * 1.2 * 2.0 \<rparr>"

definition busy_session :: "scored_review list option \<Rightarrow> session" where
  "busy_session cached = \<lparr> last_relevant_reviews = cached,
      last_query_sentiment = Some ''positive'', index_calls = 1 \<rparr>"

definition bistro_row :: place_result where
  "bistro_row = \<lparr> scores = \<lparr> ps_place_firm_id = 1, avg_score = 2.232, max_score = 2.4,
      review_count = 15, total_score = 33.48, positive_reviews = 15, negative_reviews = 0,
      neutral_reviews = 0, final_score = 2.232 \<rparr>, info = Some bistro \<rparr>"

section \<open>Facts about the building blocks\<close>

subsection \<open>Sorting, selection and the per-place cap\<close>

lemma set_sort_desc: "set (sort_desc f xs) = set xs"
  by (simp add: sort_desc_def)

lemma length_sort_desc: "length (sort_desc f xs) = length xs"
  by (simp add: sort_desc_def)

lemma sorted_sort_desc: "sorted_wrt (\<lambda>a b. f b \<le> f a) (sort_desc f xs)"
proof -
  have "sorted (map (\<lambda>x. - f x) (sort_key (\<lambda>x. - f x) xs))"
    by (rule sorted_sort_key)
  then show ?thesis
    by (simp add: sort_desc_def sorted_map)
qed

lemma set_nlargest: "set (nlargest n f xs) \<subseteq> set xs"
  by (auto simp: nlargest_def set_sort_desc dest: in_set_takeD)

lemma sorted_nlargest: "sorted_wrt (\<lambda>a b. f b \<le> f a) (nlargest n f xs)"
  by (simp add: nlargest_def sorted_sort_desc sorted_wrt_take)

lemma length_nlargest: "length (nlargest n f xs) = min (nat n) (length xs)"
  by (auto simp: nlargest_def length_sort_desc)

lemma set_group_head: "set (group_head n seen rs) \<subseteq> set rs"
  by (induction rs arbitrary: seen) auto

lemma filter_group_head:
  "filter (\<lambda>r. place_firm_id r = p) (group_head n seen rs) =
     take (n - count_list seen p) (filter (\<lambda>r. place_firm_id r = p) rs)"
proof (induction rs arbitrary: seen)
  case Nil
  show ?case by simp
next
  case (Cons r rs)
  show ?case
  proof (cases "place_firm_id r = p")
    case True
    show ?thesis
    proof (cases "count_list seen p < n")
      case True
      then obtain m where "n - count_list seen p = Suc m" and "n - Suc (count_list seen p) = m"
        by (cases "n - count_list seen p") auto
      with True \<open>place_firm_id r = p\<close> Cons.IH [of "p # seen"] show ?thesis
        by simp
    next
      case False
      with \<open>place_firm_id r = p\<close> Cons.IH [of "p # seen"] show ?thesis
        by simp
    qed
  next
    case False
    with Cons.IH [of "place_firm_id r # seen"] show ?thesis
      by simp
  qed
qed

lemma sorted_group_head:
  "sorted_wrt R rs \<Longrightarrow> sorted_wrt R (group_head n seen rs)"
proof (induction rs arbitrary: seen)
  case Nil
  show ?case by simp
next
  case (Cons r rs)
  then have "\<forall>x\<in>set (group_head n (place_firm_id r # seen) rs). R r x"
    using set_group_head by fastforce
  with Cons show ?case by simp
qed

subsection \<open>The paths through \<open>search_reviews\<close> and \<open>search_places\<close>\<close>

lemma search_reviews_invalid:
  "normalize_text e query = [] \<Longrightarrow> search_reviews e s query top_k = (Inl InvalidQuery, s)"
  by (simp add: search_reviews_def)

lemma search_reviews_session:
  "normalize_text e query \<noteq> [] \<Longrightarrow>
     snd (search_reviews e s query top_k) =
       s\<lparr>last_query_sentiment := Some (get_query_sentiment e (normalize_text e query)),
         index_calls := index_calls s + 1\<rparr>"
  by (simp add: search_reviews_def Let_def split: sum.split)

lemma search_reviews_rows:
  assumes "search_reviews e s query top_k = (Inr rows, s')" and "r \<in> set rows"
  shows "\<exists>row. r = score_row e (get_query_sentiment e (normalize_text e query)) row
           \<and> min_score (get_query_sentiment e (normalize_text e query)) < final_review_score r"
proof -
  let ?qs = "get_query_sentiment e (normalize_text e query)"
  from assms obtain cands where
    "rows = nlargest top_k final_review_score (threshold_filter ?qs (map (score_row e ?qs) cands))"
    by (auto simp: search_reviews_def Let_def split: if_splits sum.splits)
  with assms(2) set_nlargest
  have "r \<in> set (threshold_filter ?qs (map (score_row e ?qs) cands))"
    by fastforce
  then show ?thesis
    by (auto simp: threshold_filter_def)
qed

lemma search_reviews_sorted:
  assumes "search_reviews e s query top_k = (Inr rows, s')"
  shows "sorted_wrt (\<lambda>a b. final_review_score b \<le> final_review_score a) rows"
proof -
  from assms have "rows = [] \<or> (\<exists>xs. rows = nlargest top_k final_review_score xs)"
    by (auto simp: search_reviews_def Let_def split: if_splits sum.splits)
  then show ?thesis
    using sorted_nlargest [of final_review_score top_k] by auto
qed

lemma min_score_pos: "0 < min_score qs"
  by (simp add: min_score_def)

lemma search_places_invalid:
  "normalize_text e query = [] \<Longrightarrow>
     search_places e s query top_k min_reviews aggregation = (Inl InvalidQuery, s)"
  by (simp add: search_places_def search_reviews_invalid)

lemma search_places_error:
  "search_reviews e s query 300 = (Inl err, s1) \<Longrightarrow>
     search_places e s query top_k min_reviews aggregation = (Inl err, s1)"
  by (simp add: search_places_def)

lemma search_places_no_reviews:
  "search_reviews e s query 300 = (Inr [], s1) \<Longrightarrow>
     search_places e s query top_k min_reviews aggregation = (Inr [], s1)"
  by (simp add: search_places_def)

lemma search_places_ranked:
  assumes "search_reviews e s query 300 = (Inr rel, s1)" and "rel \<noteq> []"
  shows "search_places e s query top_k min_reviews aggregation =
           (rank_places e (s1\<lparr>last_relevant_reviews := Some (per_place_cap rel)\<rparr>)
              (per_place_cap rel)
              (or_int top_k DEFAULT_TOP_K) (or_int min_reviews DEFAULT_MIN_REVIEWS)
              (or_str aggregation DEFAULT_AGGREGATION),
            s1\<lparr>last_relevant_reviews := Some (per_place_cap rel)\<rparr>)"
  using assms by (simp add: search_places_def Let_def)

text \<open>The rows that the steps after the aggregation return come from the scored places.\<close>

lemma set_drop_duplicates: "set (drop_duplicates seen rs) \<subseteq> set rs"
  by (induction rs arbitrary: seen) auto

lemma set_py_head: "set (py_head n xs) \<subseteq> set xs"
  by (auto simp: py_head_def dest: in_set_takeD)

lemma length_py_head: "0 \<le> n \<Longrightarrow> length (py_head n xs) \<le> nat n"
  by (simp add: py_head_def)

lemma scores_merge_places: "r \<in> set (merge_places pss places) \<Longrightarrow> scores r \<in> set pss"
  by (auto simp: merge_places_def merge_row_def Let_def split: if_splits)

lemma rank_places_scored:
  assumes "rank_places e s rel top_k min_reviews aggregation = Inr rows" and "row \<in> set rows"
  shows "\<exists>pss. set_final_score aggregation (or_str (last_query_sentiment s) ''neutral'')
                 (filter (\<lambda>ps. min_reviews \<le> int (review_count ps))
                    (map (aggregate_place rel) (group_keys rel))) = Inr pss
               \<and> scores row \<in> set pss"
proof -
  let ?in = "filter (\<lambda>ps. min_reviews \<le> int (review_count ps))
               (map (aggregate_place rel) (group_keys rel))"
  let ?qs = "or_str (last_query_sentiment s) ''neutral''"
  from assms obtain pss where pss: "set_final_score aggregation ?qs ?in = Inr pss"
    and rows: "rows = py_head top_k (filter has_name (drop_duplicates []
                 (merge_places (nlargest (top_k * 2) final_score pss) (places_df e))))"
    by (auto simp: rank_places_def Let_def split: if_splits sum.splits)
  from assms(2) rows set_py_head
  have "row \<in> set (filter has_name (drop_duplicates []
                 (merge_places (nlargest (top_k * 2) final_score pss) (places_df e))))"
    by fastforce
  then have "row \<in> set (drop_duplicates []
                 (merge_places (nlargest (top_k * 2) final_score pss) (places_df e)))"
    by simp
  with set_drop_duplicates
  have "row \<in> set (merge_places (nlargest (top_k * 2) final_score pss) (places_df e))"
    by fastforce
  then have "scores row \<in> set (nlargest (top_k * 2) final_score pss)"
    by (rule scores_merge_places)
  with set_nlargest have "scores row \<in> set pss"
    by fastforce
  with pss show ?thesis by blast
qed

lemma set_final_score_row:
  assumes "set_final_score aggregation qs pss = Inr out" and "x \<in> set out"
  shows "\<exists>ps\<in>set pss.
           (aggregation = ''mean'' \<and> x = ps\<lparr>final_score := avg_score ps\<rparr>)
         \<or> (aggregation = ''max'' \<and> x = ps\<lparr>final_score := max_score ps\<rparr>)
         \<or> (aggregation = ''weighted'' \<and>
              x = ps\<lparr>final_score := avg_score ps * log1p (real (review_count ps))
                                      * np_sqrt (sentiment_ratio qs ps)\<rparr>)"
  using assms by (auto simp: set_final_score_def split: if_splits)

lemma search_places_index_calls:
  "normalize_text e query \<noteq> [] \<Longrightarrow>
     index_calls (snd (search_places e s query top_k min_reviews aggregation)) = index_calls s + 1"
proof -
  assume ne: "normalize_text e query \<noteq> []"
  obtain res s1 where sr: "search_reviews e s query 300 = (res, s1)"
    by (cases "search_reviews e s query 300")
  with search_reviews_session [OF ne, of s 300] have "index_calls s1 = index_calls s + 1"
    by simp
  with sr show ?thesis
    by (cases res) (simp_all add: search_places_def Let_def)
qed

lemma score_row_product:
  "final_review_score (score_row e qs row) =
     similarity_score (score_row e qs row)
       * sentiment_to_weight (sentiment_label (score_row e qs row))
       * align_sentiment qs (sentiment_label (score_row e qs row))"
  by (cases row) (simp add: score_row_def Let_def)

lemma search_reviews_valid:
  "search_reviews e s query k = (Inr rows, s') \<Longrightarrow> normalize_text e query \<noteq> []"
  by (auto simp: search_reviews_invalid)

lemma set_per_place_cap: "set (per_place_cap rel) \<subseteq> set rel"
  using set_group_head [of 15 "[]" "sort_desc final_review_score rel"]
  by (simp add: per_place_cap_def set_sort_desc)

lemma filter_per_place_cap:
  "filter (\<lambda>r. place_firm_id r = p) (per_place_cap rel) =
     take 15 (filter (\<lambda>r. place_firm_id r = p) (sort_desc final_review_score rel))"
  by (simp add: per_place_cap_def filter_group_head)

lemma or_str_negative: "or_str (Some qs) ''neutral'' = ''negative'' \<longleftrightarrow> qs = ''negative''"
  by (simp add: or_str_def)

text \<open>Every row that \<open>search_places\<close> returns carries a row of the scored aggregation.\<close>

lemma search_places_rows:
  assumes "search_places e s query top_k min_reviews aggregation = (Inr rows, s')"
    and "row \<in> set rows"
  shows "\<exists>rel s1 pss.
           search_reviews e s query 300 = (Inr rel, s1) \<and> rel \<noteq> []
         \<and> set_final_score (or_str aggregation DEFAULT_AGGREGATION)
              (or_str (Some (get_query_sentiment e (normalize_text e query))) ''neutral'')
              (filter (\<lambda>ps. or_int min_reviews DEFAULT_MIN_REVIEWS \<le> int (review_count ps))
                 (map (aggregate_place (per_place_cap rel)) (group_keys (per_place_cap rel))))
              = Inr pss
         \<and> scores row \<in> set pss"
proof -
  obtain res s1 where sr: "search_reviews e s query 300 = (res, s1)"
    by (cases "search_reviews e s query 300")
  show ?thesis
  proof (cases res)
    case (Inl err)
    with sr assms(1) show ?thesis
      by (simp add: search_places_error)
  next
    case (Inr rel)
    show ?thesis
    proof (cases "rel = []")
      case True
      with sr Inr assms show ?thesis
        by (simp add: search_places_no_reviews)
    next
      case False
      let ?s2 = "s1\<lparr>last_relevant_reviews := Some (per_place_cap rel)\<rparr>"
      from sr Inr have sr': "search_reviews e s query 300 = (Inr rel, s1)"
        by simp
      then have "normalize_text e query \<noteq> []"
        by (rule search_reviews_valid)
      with search_reviews_session [of e query s 300] sr'
      have "last_query_sentiment ?s2 = Some (get_query_sentiment e (normalize_text e query))"
        by simp
      moreover from search_places_ranked [OF sr' False, of top_k min_reviews aggregation] assms(1)
      have "rank_places e ?s2 (per_place_cap rel) (or_int top_k DEFAULT_TOP_K)
              (or_int min_reviews DEFAULT_MIN_REVIEWS) (or_str aggregation DEFAULT_AGGREGATION)
            = Inr rows"
        by simp
      ultimately show ?thesis
        using rank_places_scored [of e ?s2 "per_place_cap rel" _ _ _ rows row] assms(2) sr' False
        by auto
    qed
  qed
qed

lemma aggregate_place_fields:
  "ps_place_firm_id (aggregate_place rs p) = p"
  "review_count (aggregate_place rs p) = length (filter (\<lambda>r. place_firm_id r = p) rs)"
  by (simp_all add: aggregate_place_def Let_def)

lemma set_final_score_fields:
  assumes "set_final_score aggregation qs pss = Inr out" and "x \<in> set out"
  shows "\<exists>ps\<in>set pss. ps_place_firm_id x = ps_place_firm_id ps \<and> review_count x = review_count ps
           \<and> avg_score x = avg_score ps \<and> max_score x = max_score ps
           \<and> positive_reviews x = positive_reviews ps \<and> negative_reviews x = negative_reviews ps
           \<and> neutral_reviews x = neutral_reviews ps"
  using set_final_score_row [OF assms] by auto

lemma score_max_nonneg: "\<forall>x\<in>set xs. 0 \<le> x \<Longrightarrow> 0 \<le> score_max xs"
  by (induction xs rule: score_max.induct) auto

lemma aggregate_place_nonneg:
  assumes "\<forall>r\<in>set rs. 0 \<le> final_review_score r"
  shows "0 \<le> avg_score (aggregate_place rs p)" and "0 \<le> max_score (aggregate_place rs p)"
proof -
  let ?xs = "map final_review_score (filter (\<lambda>r. place_firm_id r = p) rs)"
  from assms have nonneg: "\<forall>x\<in>set ?xs. 0 \<le> x"
    by auto
  then have "0 \<le> sum_list ?xs"
    by (intro sum_list_nonneg) blast
  then show "0 \<le> avg_score (aggregate_place rs p)"
    by (simp add: aggregate_place_def Let_def)
  from nonneg have "0 \<le> score_max ?xs"
    by (rule score_max_nonneg)
  then show "0 \<le> max_score (aggregate_place rs p)"
    by (simp add: aggregate_place_def Let_def)
qed

lemma set_final_score_nonneg:
  assumes "set_final_score aggregation qs pss = Inr out" and "x \<in> set out"
    and "\<forall>ps\<in>set pss. 0 \<le> avg_score ps \<and> 0 \<le> max_score ps"
  shows "0 \<le> final_score x"
proof -
  from set_final_score_row [OF assms(1,2)] obtain ps where ps: "ps \<in> set pss"
    and x: "x = ps\<lparr>final_score := avg_score ps\<rparr>
          \<or> x = ps\<lparr>final_score := max_score ps\<rparr>
          \<or> x = ps\<lparr>final_score := avg_score ps * log1p (real (review_count ps))
                                      * np_sqrt (sentiment_ratio qs ps)\<rparr>"
    by auto
  from ps assms(3) have a: "0 \<le> avg_score ps" and m: "0 \<le> max_score ps"
    by auto
  have "0 \<le> log1p (real (review_count ps))"
    by (simp add: log1p_def)
  moreover have "0 \<le> sentiment_ratio qs ps"
    by (simp add: sentiment_ratio_def)
  then have "0 \<le> np_sqrt (sentiment_ratio qs ps)"
    by (simp add: np_sqrt_def)
  ultimately have "0 \<le> avg_score ps * log1p (real (review_count ps))
                         * np_sqrt (sentiment_ratio qs ps)"
    using a by simp
  with x a m show ?thesis
    by auto
qed

lemma search_reviews_positive:
  assumes "search_reviews e s query k = (Inr revs, s1)" and "r \<in> set revs"
  shows "0 < final_review_score r"
proof -
  from search_reviews_rows [OF assms]
  have "min_score (get_query_sentiment e (normalize_text e query)) < final_review_score r"
    by blast
  with min_score_pos [of "get_query_sentiment e (normalize_text e query)"] show ?thesis
    by simp
qed

lemma per_place_cap_positive:
  assumes "search_reviews e s query k = (Inr rel, s1)" and "r \<in> set (per_place_cap rel)"
  shows "0 < final_review_score r"
  using assms set_per_place_cap [of rel] search_reviews_positive [of e s query k rel s1 r]
  by blast

lemma sorted_desc_split:
  assumes "sorted_wrt (\<lambda>a b. f b \<le> f a) xs" and "x \<in> set (take n xs)" and "y \<in> set (drop n xs)"
  shows "f y \<le> f x"
proof -
  from assms(1) have "sorted_wrt (\<lambda>a b. f b \<le> f a) (take n xs @ drop n xs)"
    by simp
  with assms(2,3) show ?thesis
    unfolding sorted_wrt_append by blast
qed

lemma per_place_cap_best:
  assumes "kept \<in> set (per_place_cap rel)" and "dropped \<in> set rel"
    and "dropped \<notin> set (per_place_cap rel)"
    and "place_firm_id dropped = place_firm_id kept"
  shows "final_review_score dropped \<le> final_review_score kept"
proof -
  let ?p = "place_firm_id kept"
  let ?xs = "filter (\<lambda>r. place_firm_id r = ?p) (sort_desc final_review_score rel)"
  have sorted: "sorted_wrt (\<lambda>a b. final_review_score b \<le> final_review_score a) ?xs"
    by (simp add: sorted_sort_desc sorted_wrt_filter)
  have cap: "filter (\<lambda>r. place_firm_id r = ?p) (per_place_cap rel) = take 15 ?xs"
    by (rule filter_per_place_cap)
  from assms(1) have "kept \<in> set (filter (\<lambda>r. place_firm_id r = ?p) (per_place_cap rel))"
    by simp
  with cap have kept: "kept \<in> set (take 15 ?xs)"
    by simp
  from assms(3,4) have "dropped \<notin> set (filter (\<lambda>r. place_firm_id r = ?p) (per_place_cap rel))"
    by simp
  with cap have "dropped \<notin> set (take 15 ?xs)"
    by simp
  moreover from assms(2,4) have "dropped \<in> set (take 15 ?xs @ drop 15 ?xs)"
    by (simp add: set_sort_desc)
  ultimately have "dropped \<in> set (drop 15 ?xs)"
    by (metis Un_iff set_append)
  with sorted kept show ?thesis
    by (rule sorted_desc_split)
qed

lemma search_places_review_count:
  assumes "search_places e s query top_k min_reviews aggregation = (Inr rows, s')"
    and "row \<in> set rows"
  shows "\<exists>rel s1. search_reviews e s query 300 = (Inr rel, s1) \<and> rel \<noteq> []
           \<and> review_count (scores row) =
               length (filter (\<lambda>r. place_firm_id r = ps_place_firm_id (scores row)) (per_place_cap rel))
           \<and> or_int min_reviews DEFAULT_MIN_REVIEWS \<le> int (review_count (scores row))"
proof -
  from search_places_rows [OF assms] obtain rel s1 pss where
    sr: "search_reviews e s query 300 = (Inr rel, s1)" "rel \<noteq> []"
    and fs: "set_final_score (or_str aggregation DEFAULT_AGGREGATION)
              (or_str (Some (get_query_sentiment e (normalize_text e query))) ''neutral'')
              (filter (\<lambda>ps. or_int min_reviews DEFAULT_MIN_REVIEWS \<le> int (review_count ps))
                 (map (aggregate_place (per_place_cap rel)) (group_keys (per_place_cap rel))))
              = Inr pss"
    and mem: "scores row \<in> set pss"
    by blast
  from set_final_score_fields [OF fs mem] obtain p where
    "ps_place_firm_id (scores row) = ps_place_firm_id (aggregate_place (per_place_cap rel) p)"
    "review_count (scores row) = review_count (aggregate_place (per_place_cap rel) p)"
    "or_int min_reviews DEFAULT_MIN_REVIEWS \<le> int (review_count (aggregate_place (per_place_cap rel) p))"
    by auto
  with sr show ?thesis
    by (auto simp: aggregate_place_fields)
qed

lemma nlargest_Nil: "nlargest n f [] = []"
  by (simp add: nlargest_def sort_desc_def)

lemma rank_places_length:
  assumes "rank_places e s rel top_k min_reviews aggregation = Inr rows" and "0 \<le> top_k"
  shows "length rows \<le> nat top_k"
proof -
  from assms(1) have "rows = [] \<or> (\<exists>xs. rows = py_head top_k xs)"
    by (auto simp: rank_places_def Let_def split: if_splits sum.splits)
  with assms(2) show ?thesis
    using length_py_head by auto
qed

lemma search_places_length:
  assumes "search_places e s query top_k min_reviews aggregation = (Inr rows, s')"
    and "0 \<le> or_int top_k DEFAULT_TOP_K"
  shows "length rows \<le> nat (or_int top_k DEFAULT_TOP_K)"
proof -
  obtain res s1 where sr: "search_reviews e s query 300 = (res, s1)"
    by (cases "search_reviews e s query 300")
  show ?thesis
  proof (cases res)
    case (Inl err)
    with sr assms(1) show ?thesis
      by (simp add: search_places_error)
  next
    case (Inr rel)
    show ?thesis
    proof (cases "rel = []")
      case True
      with sr Inr assms(1) show ?thesis
        by (simp add: search_places_no_reviews)
    next
      case False
      from sr Inr have sr': "search_reviews e s query 300 = (Inr rel, s1)"
        by simp
      from search_places_ranked [OF sr' False, of top_k min_reviews aggregation] assms(1)
      have "rank_places e (s1\<lparr>last_relevant_reviews := Some (per_place_cap rel)\<rparr>)
              (per_place_cap rel) (or_int top_k DEFAULT_TOP_K)
              (or_int min_reviews DEFAULT_MIN_REVIEWS) (or_str aggregation DEFAULT_AGGREGATION)
            = Inr rows"
        by simp
      then show ?thesis
        using assms(2) by (rule rank_places_length)
    qed
  qed
qed

lemma search_places_defaults:
  "search_places e s query top_k min_reviews aggregation =
     search_places e s query (Some (or_int top_k DEFAULT_TOP_K))
       (Some (or_int min_reviews DEFAULT_MIN_REVIEWS))
       (Some (or_str aggregation DEFAULT_AGGREGATION))"
  by (simp add: search_places_def or_int_def or_str_def DEFAULT_TOP_K_def
      DEFAULT_MIN_REVIEWS_def DEFAULT_AGGREGATION_def split: option.split)

lemma iloc_rows_error: "iloc_rows df hits = Inl err \<Longrightarrow> err = IndexError"
  by (induction df hits rule: iloc_rows.induct) (auto simp: Let_def split: if_splits sum.splits)

lemma search_reviews_error:
  "search_reviews e s query k = (Inl err, s1) \<Longrightarrow> err = InvalidQuery \<or> err = IndexError"
  by (auto simp: search_reviews_def Let_def split: if_splits sum.splits dest: iloc_rows_error)

lemma set_final_score_unknown:
  "a \<notin> {''mean'', ''max'', ''weighted''} \<Longrightarrow> set_final_score a qs pss = Inl InvalidAggregation"
  by (simp add: set_final_score_def)

lemma rank_places_unknown:
  assumes "a \<notin> {''mean'', ''max'', ''weighted''}"
  shows "rank_places e s rel top_k min_reviews a =
           (if \<exists>p\<in>set (group_keys rel).
                 min_reviews \<le> int (length (filter (\<lambda>r. place_firm_id r = p) rel))
            then Inl InvalidAggregation else Inr [])"
proof -
  have "filter (\<lambda>ps. min_reviews \<le> int (review_count ps))
          (map (aggregate_place rel) (group_keys rel)) = [] \<longleftrightarrow>
        \<not> (\<exists>p\<in>set (group_keys rel).
              min_reviews \<le> int (length (filter (\<lambda>r. place_firm_id r = p) rel)))"
    by (auto simp: filter_empty_conv aggregate_place_fields)
  then show ?thesis
    using assms by (simp add: rank_places_def Let_def set_final_score_unknown)
qed

lemma search_places_session:
  "normalize_text e query \<noteq> [] \<Longrightarrow>
     last_query_sentiment (snd (search_places e s query top_k min_reviews aggregation))
       = Some (get_query_sentiment e (normalize_text e query))"
proof -
  assume ne: "normalize_text e query \<noteq> []"
  obtain res s1 where sr: "search_reviews e s query 300 = (res, s1)"
    by (cases "search_reviews e s query 300")
  with search_reviews_session [OF ne, of s 300]
  have "last_query_sentiment s1 = Some (get_query_sentiment e (normalize_text e query))"
    by simp
  with sr show ?thesis
    by (cases res) (simp_all add: search_places_def Let_def)
qed

lemma get_place_highlights_session: "snd (get_place_highlights e s pid k) = s"
  by (simp add: get_place_highlights_def Let_def split: option.split)

lemma get_place_sentiment_stats_session: "snd (get_place_sentiment_stats s pid) = s"
  by (simp add: get_place_sentiment_stats_def Let_def split: option.split)

lemma nlargest_best:
  assumes "t \<in> set (nlargest n f xs)" and "r \<in> set xs" and "r \<notin> set (nlargest n f xs)"
  shows "f r \<le> f t"
proof (cases "n \<le> 0")
  case True
  with assms(1) show ?thesis
    by (simp add: nlargest_def)
next
  case False
  with assms have t: "t \<in> set (take (nat n) (sort_desc f xs))"
    and "r \<notin> set (take (nat n) (sort_desc f xs))"
    by (simp_all add: nlargest_def)
  moreover from assms(2)
  have "r \<in> set (take (nat n) (sort_desc f xs) @ drop (nat n) (sort_desc f xs))"
    by (simp add: set_sort_desc)
  ultimately have "r \<in> set (drop (nat n) (sort_desc f xs))"
    by (metis Un_iff set_append)
  with sorted_sort_desc [of f xs] t show ?thesis
    by (rule sorted_desc_split)
qed

lemma nlargest_rest:
  "\<exists>rest. mset (nlargest n f xs @ rest) = mset xs
     \<and> (\<forall>t\<in>set (nlargest n f xs). \<forall>r\<in>set rest. f r \<le> f t)"
proof (cases "n \<le> 0")
  case True
  then have "nlargest n f xs = []"
    by (simp add: nlargest_def)
  then show ?thesis
    by (intro exI [of _ xs]) simp
next
  case False
  let ?ys = "sort_desc f xs"
  have "mset (take (nat n) ?ys @ drop (nat n) ?ys) = mset xs"
    by (simp add: sort_desc_def)
  moreover have "\<forall>t\<in>set (take (nat n) ?ys). \<forall>r\<in>set (drop (nat n) ?ys). f r \<le> f t"
    using sorted_desc_split [OF sorted_sort_desc [of f xs]] by blast
  ultimately show ?thesis
    using False unfolding nlargest_def by (intro exI [of _ "drop (nat n) ?ys"]) simp
qed

text \<open>The reviews that \<open>get_place_highlights\<close> selects before it formats them.\<close>

lemma get_place_highlights_selection:
  "fst (get_place_highlights e s pid k) =
     (case last_relevant_reviews s of
        None \<Rightarrow> []
      | Some cached \<Rightarrow>
          concat (map (highlight_row e)
            (nlargest k final_review_score (filter (\<lambda>r. place_firm_id r = pid) cached))))"
  by (simp add: get_place_highlights_def Let_def nlargest_Nil split: option.split)

lemma sentiment_to_weight_pos: "0 < sentiment_to_weight label"
  by (simp add: sentiment_to_weight_def)

lemma align_sentiment_pos: "0 < align_sentiment qs label"
  by (simp add: align_sentiment_def)

lemma score_row_sign:
  "(d < 0 \<longrightarrow> final_review_score (score_row e qs (j, p, r, d)) < 0)
   \<and> (0 \<le> d \<longrightarrow> 0 \<le> final_review_score (score_row e qs (j, p, r, d)))"
proof -
  let ?w = "sentiment_to_weight (sentiment_label (score_row e qs (j, p, r, d)))"
  let ?a = "align_sentiment qs (sentiment_label (score_row e qs (j, p, r, d)))"
  have "0 < ?w * ?a"
    using sentiment_to_weight_pos align_sentiment_pos by (rule mult_pos_pos)
  moreover have "final_review_score (score_row e qs (j, p, r, d)) = d * (?w * ?a)"
    using score_row_product [of e qs "(j, p, r, d)"]
    by (simp add: score_row_def Let_def)
  ultimately show ?thesis
    by (simp add: mult_neg_pos)
qed

subsection \<open>The small corpus, evaluated\<close>

lemma demo_normalize: "normalize_text demo_env ''- bad service'' = ''- bad service''"
  by code_simp

lemma demo_query_sentiment: "get_query_sentiment demo_env ''- bad service'' = ''negative''"
  by code_simp

lemma demo_search_reviews:
  "search_reviews demo_env fresh ''- bad service'' 300 =
     (Inr [row5, row0, row4], searched\<lparr>last_relevant_reviews := None\<rparr>)"
  by code_simp

lemma demo_blank: "normalize_text demo_env ''   '' = []"
  by code_simp

lemma demo_score_row2: "score_row demo_env ''neutral'' (2, 7, demo_reviews ! 2, 0.25) = row2"
  by code_simp

lemma row2_at_threshold:
  "final_review_score row2 = 0.20" "min_score ''neutral'' = 0.20"
  "threshold_filter ''neutral'' [row2] = []"
  by (simp_all add: row2_def min_score_def threshold_filter_def)

lemma demo_rows_scores:
  "final_review_score row5 = 1.9" "final_review_score row0 = 1.8"
  "final_review_score row4 = 0.25" "final_review_score row4_neutral = 0.5"
  "row4_neutral \<noteq> row2"
  by (simp_all add: row5_def row0_def row4_def row2_def row4_neutral_def)

lemma demo_quiet:
  "normalize_text demo_env ''quiet place'' = ''quiet place''"
  "get_query_sentiment demo_env ''quiet place'' = ''neutral''"
  "search_reviews demo_env fresh ''quiet place'' 300 = (Inr [row4_neutral], quiet_session)"
  by code_simp+

lemma demo_per_place_cap: "per_place_cap [row5, row0, row4] = [row5, row0, row4]"
  by code_simp

lemma demo_aggregate7: "aggregate_place [row5, row0, row4] 7 = cafe_scores\<lparr>final_score := 0\<rparr>"
  by code_simp

lemma demo_aggregate9: "review_count (aggregate_place [row5, row0, row4] 9) = 1"
  by code_simp

lemma demo_keys: "group_keys [row5, row0, row4] = [7, 9]"
  by code_simp

lemma demo_join:
  "ps_place_firm_id ps = 7 \<Longrightarrow>
     py_head 10 (filter has_name (drop_duplicates []
       (merge_places [ps] (places_df demo_env)))) = [\<lparr> scores = ps, info = Some cafe \<rparr>]"
  by (simp add: py_head_def has_name_def result_name_def merge_places_def merge_row_def
      demo_env_def demo_places_def cafe_def)

lemma demo_rank_weighted:
  "rank_places demo_env searched [row5, row0, row4] 10 2 ''weighted'' = Inr [cafe_row]"
proof -
  have in_rows: "filter (\<lambda>ps. 2 \<le> int (review_count ps))
          (map (aggregate_place [row5, row0, row4]) (group_keys [row5, row0, row4]))
        = [cafe_scores\<lparr>final_score := 0\<rparr>]"
    by (simp add: demo_keys demo_aggregate7 demo_aggregate9 cafe_scores_def)
  have qs: "or_str (last_query_sentiment searched) ''neutral'' = ''negative''"
    by (simp add: or_str_def searched_def)
  have scored: "set_final_score ''weighted'' ''negative'' [cafe_scores\<lparr>final_score := 0\<rparr>]
        = Inr [cafe_scores]"
    by (simp add: set_final_score_def sentiment_ratio_def cafe_scores_def)
  have top: "nlargest (10 * 2) final_score [cafe_scores] = [cafe_scores]"
    by (simp add: nlargest_def sort_desc_def)
  have "ps_place_firm_id cafe_scores = 7"
    by (simp add: cafe_scores_def)
  then have joined: "py_head 10 (filter has_name (drop_duplicates []
       (merge_places [cafe_scores] (places_df demo_env)))) = [cafe_row]"
    by (simp only: demo_join cafe_row_def)
  show ?thesis
    by (simp only: rank_places_def Let_def in_rows qs scored top joined list.size
        sum.case) simp
qed

lemma demo_search_places_weighted:
  "search_places demo_env fresh ''- bad service'' (Some 0) (Some 2) None = (Inr [cafe_row], searched)"
proof -
  have defaults: "or_int (Some 0) DEFAULT_TOP_K = 10" "or_int (Some 2) DEFAULT_MIN_REVIEWS = 2"
    "or_str None DEFAULT_AGGREGATION = ''weighted''"
    by (simp_all add: or_int_def or_str_def DEFAULT_TOP_K_def DEFAULT_AGGREGATION_def)
  have s: "searched\<lparr>last_relevant_reviews := None, last_relevant_reviews := Some [row5, row0, row4]\<rparr> = searched"
    by (simp add: searched_def)
  show ?thesis
    using search_places_ranked [OF demo_search_reviews, of "Some 0" "Some 2" None]
    by (simp add: demo_per_place_cap defaults s demo_rank_weighted)
qed

lemma demo_search_places_zero_reviews:
  "search_places demo_env fresh ''- bad service'' None (Some 0) None = (Inr [], searched)"
  by code_simp

lemma demo_search_places_one_review:
  "fst (search_places demo_env fresh ''- bad service'' None (Some 1) (Some ''mean'')) \<noteq> Inr []"
  by code_simp

lemma demo_unknown_no_place:
  "search_places demo_env fresh ''- bad service'' None None (Some ''median'') = (Inr [], searched)"
  by code_simp

lemma demo_unknown_raises:
  "search_places demo_env fresh ''- bad service'' None (Some 2) (Some ''median'') =
     (Inl InvalidAggregation, searched)"
  by code_simp

lemma demo_empty_name:
  "search_places demo_env fresh ''- bad service'' (Some 0) (Some 2) (Some []) =
     (Inr [cafe_row], searched)"
  using demo_search_places_weighted search_places_defaults [of demo_env fresh "''- bad service''"
      "Some 0" "Some 2" None]
    search_places_defaults [of demo_env fresh "''- bad service''" "Some 0" "Some 2" "Some []"]
  by (simp add: or_str_def)

lemma demo_unknown_no_review:
  "search_places demo_env fresh ''nothing here'' None None (Some ''median'') =
     (Inr [], fresh\<lparr>last_query_sentiment := Some ''neutral'', index_calls := 1\<rparr>)"
  by code_simp

lemma demo_blank_after_search:
  "search_places demo_env searched ''   '' None None None = (Inl InvalidQuery, searched)"
  by (simp add: search_places_invalid demo_blank)

lemma demo_nothing_after_search:
  "search_places demo_env searched ''nothing here'' None None None =
     (Inr [], searched\<lparr>last_query_sentiment := Some ''neutral'', index_calls := 2\<rparr>)"
  by code_simp

lemma demo_highlights:
  "get_place_highlights demo_env searched 7 1 = ([], searched)"
  "get_place_highlights demo_env searched 7 2 = ([''[-] - the service was terribly slow''], searched)"
  "get_place_highlights demo_env searched 8 2 = ([], searched)"
  "get_place_highlights demo_env fresh 7 2 = ([], fresh)"
  by code_simp+

lemma demo_place7:
  "filter (\<lambda>r. place_firm_id r = 7) [row5, row0, row4] = [row5, row0]"
  "nlargest 1 final_review_score [row5, row0] = [row5]"
  "text_col row5 = Some ''- awful''" "length (py_strip ''- awful'') = 7"
  "ps_place_firm_id (scores cafe_row) = 7"
  by code_simp+

lemma demo_negative_similarity:
  "similarity_score (score_row demo_env ''neutral'' (0, 7, demo_reviews ! 0, - 0.75)) = - 0.75"
  "sentiment_weight (score_row demo_env ''neutral'' (0, 7, demo_reviews ! 0, - 0.75)) = 0.8"
  "sentiment_alignment (score_row demo_env ''neutral'' (0, 7, demo_reviews ! 0, - 0.75)) = 1"
  "final_review_score (score_row demo_env ''neutral'' (0, 7, demo_reviews ! 0, - 0.75)) = - 0.6"
  by code_simp+

subsection \<open>The busy place, evaluated\<close>

lemma busy_search_reviews:
  "search_reviews busy_env fresh ''+ good'' 300 = (Inr (map busy_row [0..<17]), busy_session None)"
  by code_simp

lemma busy_per_place_cap: "per_place_cap (map busy_row [0..<17]) = map busy_row [0..<15]"
  by code_simp

lemma busy_search_places:
  "search_places busy_env fresh ''+ good'' None None (Some ''mean'') =
     (Inr [bistro_row], busy_session (Some (map busy_row [0..<15])))"
  by code_simp

lemma busy_facts:
  "length (filter (\<lambda>r. place_firm_id r = 1) (map busy_row [0..<15])) = 15"
  "busy_row 14 \<in> set (map busy_row [0..<15])"
  "busy_row 16 \<in> set (map busy_row [0..<17])"
  "busy_row 16 \<notin> set (map busy_row [0..<15])"
  "place_firm_id (busy_row 16) = place_firm_id (busy_row 14)"
  "review_count (scores bistro_row) = 15"
  "ps_place_firm_id (scores bistro_row) = 1"
  by code_simp+

section \<open>The claims\<close>

text \<open>
  C1. Every scored candidate review has
  \<open>final_review_score = similarity * sentiment_weight(label) * sentiment_alignment(query, label)\<close>:
  the rows that \<open>search_reviews\<close> returns and every row that the scorer builds. The weight
  is 1.2, 1.0, 0.8 for positive, neutral, negative; the alignment is 0.05, 0.5, 2.5 for a
  negative query, 2.0, 0.7, 0.05 for a positive query, and 1.0 for a neutral query.
\<close>

theorem c1_final_review_score:
  assumes "search_reviews e s query top_k = (Inr rows, s')" and "r \<in> set rows"
  shows "final_review_score r =
           similarity_score r * sentiment_to_weight (sentiment_label r)
             * align_sentiment (get_query_sentiment e (normalize_text e query)) (sentiment_label r)
         \<and> final_review_score (score_row e qs row) =
             similarity_score (score_row e qs row)
               * sentiment_to_weight (sentiment_label (score_row e qs row))
               * align_sentiment qs (sentiment_label (score_row e qs row))
         \<and> sentiment_to_weight ''positive'' = 1.2
         \<and> sentiment_to_weight ''neutral'' = 1.0
         \<and> sentiment_to_weight ''negative'' = 0.8
         \<and> align_sentiment ''negative'' ''positive'' = 0.05
         \<and> align_sentiment ''negative'' ''neutral'' = 0.5
         \<and> align_sentiment ''negative'' ''negative'' = 2.5
         \<and> align_sentiment ''positive'' ''positive'' = 2.0
         \<and> align_sentiment ''positive'' ''neutral'' = 0.7
         \<and> align_sentiment ''positive'' ''negative'' = 0.05
         \<and> align_sentiment ''neutral'' label = 1.0"
proof -
  from assms obtain row0 where "r = score_row e (get_query_sentiment e (normalize_text e query)) row0"
    using search_reviews_rows by blast
  then have "final_review_score r =
           similarity_score r * sentiment_to_weight (sentiment_label r)
             * align_sentiment (get_query_sentiment e (normalize_text e query)) (sentiment_label r)"
    by (simp only: score_row_product)
  moreover have "sentiment_to_weight ''positive'' = 1.2" "sentiment_to_weight ''neutral'' = 1.0"
    "sentiment_to_weight ''negative'' = 0.8"
    by (simp_all add: sentiment_to_weight_def lower_def lower_char_def)
  moreover have "align_sentiment ''negative'' ''positive'' = 0.05"
    "align_sentiment ''negative'' ''neutral'' = 0.5"
    "align_sentiment ''negative'' ''negative'' = 2.5"
    "align_sentiment ''positive'' ''positive'' = 2.0"
    "align_sentiment ''positive'' ''neutral'' = 0.7"
    "align_sentiment ''positive'' ''negative'' = 0.05"
    "align_sentiment ''neutral'' label = 1.0"
    by (simp_all add: align_sentiment_def)
  ultimately show ?thesis
    using score_row_product [of e qs row] by simp
qed

text \<open>C1 on the small corpus: the negative review of similarity 0.9 under a negative query.\<close>

theorem c1_final_review_score_witness:
  "search_reviews demo_env fresh ''- bad service'' 300 =
     (Inr [row5, row0, row4], searched\<lparr>last_relevant_reviews := None\<rparr>)
   \<and> row0 \<in> set [row5, row0, row4]
   \<and> final_review_score row0 = 0.9 * 0.8 * 2.5
   \<and> similarity_score row0 = 0.9
   \<and> sentiment_to_weight (sentiment_label row0) = 0.8
   \<and> align_sentiment (get_query_sentiment demo_env (normalize_text demo_env ''- bad service''))
        (sentiment_label row0) = 2.5"
  using c1_final_review_score [OF demo_search_reviews, of row0]
  by (simp add: demo_search_reviews demo_normalize demo_query_sentiment row0_def)

text \<open>
  C2, as stated, fails where a score equals the minimum. Under the neutral query
  \<open>quiet place\<close> review 2, of similarity 0.25 and negative label, scores
  \<open>0.25 * 0.8 * 1.0 = 0.20\<close>, which is not below the minimum 0.20; the filter drops it,
  and \<open>search_reviews\<close> returns review 4 alone.
\<close>

theorem c2_threshold_counterexample:
  "score_row demo_env ''neutral'' (2, 7, demo_reviews ! 2, 0.25) = row2
   \<and> final_review_score row2 = 0.20
   \<and> min_score ''neutral'' = 0.20
   \<and> \<not> final_review_score row2 < min_score ''neutral''
   \<and> threshold_filter ''neutral'' [row2] = []
   \<and> search_reviews demo_env fresh ''quiet place'' 300 = (Inr [row4_neutral], quiet_session)"
  using demo_score_row2 row2_at_threshold demo_quiet(3) by simp

text \<open>
  C2, amended. The minimum score is 0.15 for a negative query and 0.20 otherwise. The
  threshold filter retains exactly the scored reviews whose \<open>final_review_score\<close> is
  strictly above the minimum and drops exactly those at or below it; every review that
  \<open>search_reviews\<close> returns is strictly above the minimum.
\<close>

theorem c2_threshold_filter:
  "min_score qs = (if qs = ''negative'' then 0.15 else 0.20)
   \<and> (r \<in> set (threshold_filter qs rs) \<longleftrightarrow> r \<in> set rs \<and> min_score qs < final_review_score r)
   \<and> (search_reviews e s query top_k = (Inr rows, s') \<longrightarrow>
        (\<forall>x\<in>set rows.
           min_score (get_query_sentiment e (normalize_text e query)) < final_review_score x))"
proof -
  have "search_reviews e s query top_k = (Inr rows, s') \<longrightarrow>
        (\<forall>x\<in>set rows.
           min_score (get_query_sentiment e (normalize_text e query)) < final_review_score x)"
    using search_reviews_rows by blast
  then show ?thesis
    by (simp add: min_score_def threshold_filter_def)
qed

text \<open>
  C2 on the small corpus: the negative query returns three rows above 0.15; under the
  neutral query the row at 0.50 is kept and the row at 0.20 is dropped.
\<close>

theorem c2_threshold_filter_witness:
  "search_reviews demo_env fresh ''- bad service'' 300 =
     (Inr [row5, row0, row4], searched\<lparr>last_relevant_reviews := None\<rparr>)
   \<and> min_score (get_query_sentiment demo_env (normalize_text demo_env ''- bad service'')) = 0.15
   \<and> 0.15 < final_review_score row5 \<and> 0.15 < final_review_score row0
   \<and> 0.15 < final_review_score row4
   \<and> row2 \<notin> set (threshold_filter ''neutral'' [row4_neutral, row2])
   \<and> row4_neutral \<in> set (threshold_filter ''neutral'' [row4_neutral, row2])"
  using c2_threshold_filter [of "''negative''" row2 "[row4, row2]" demo_env fresh
      "''- bad service''" 300 "[row5, row0, row4]" "searched\<lparr>last_relevant_reviews := None\<rparr>"]
    c2_threshold_filter [of "''neutral''" row2 "[row4_neutral, row2]"]
    c2_threshold_filter [of "''neutral''" row4_neutral "[row4_neutral, row2]"]
  by (simp add: demo_search_reviews demo_normalize demo_query_sentiment demo_rows_scores
      row2_at_threshold)

text \<open>
  C7. A query that normalizes to the empty string makes \<open>search_reviews\<close>, and hence
  \<open>search_places\<close>, raise the invalid-query error and leave the session as it was, so
  the index is not called; a query whose normalized text is not empty calls the index once.
\<close>

theorem c7_empty_query:
  "(normalize_text e query = [] \<longrightarrow>
      search_reviews e s query k = (Inl InvalidQuery, s)
      \<and> search_places e s query top_k min_reviews aggregation = (Inl InvalidQuery, s))
   \<and> (normalize_text e query \<noteq> [] \<longrightarrow>
      index_calls (snd (search_reviews e s query k)) = index_calls s + 1
      \<and> index_calls (snd (search_places e s query top_k min_reviews aggregation))
          = index_calls s + 1)"
  by (simp add: search_reviews_invalid search_places_invalid search_reviews_session
      search_places_index_calls)

text \<open>C7 on the small corpus: a blank query after one search, and a second search.\<close>

theorem c7_empty_query_witness:
  "normalize_text demo_env ''   '' = []
   \<and> search_reviews demo_env searched ''   '' 200 = (Inl InvalidQuery, searched)
   \<and> search_places demo_env searched ''   '' None None None = (Inl InvalidQuery, searched)
   \<and> index_calls (snd (search_places demo_env searched ''   '' None None None)) = 1
   \<and> normalize_text demo_env ''- bad service'' \<noteq> []
   \<and> index_calls (snd (search_places demo_env searched ''- bad service'' None None None)) = 2"
  using c7_empty_query [of demo_env "''   ''" searched 200 None None None]
    c7_empty_query [of demo_env "''- bad service''" searched 200 None None None]
  by (simp add: demo_blank demo_normalize searched_def)

text \<open>
  C3. Under the weighted strategy (also when it is chosen by default) every place that
  \<open>search_places\<close> returns has
  \<open>final_score = avg_score * ln (1 + review_count) * sqrt sentiment_ratio\<close>, where the ratio
  is \<open>(negative + 1) / (positive + neutral + 1)\<close> for a negative query and
  \<open>(positive + 1) / (negative + 1)\<close> otherwise.
\<close>

theorem c3_weighted_final_score:
  assumes "search_places e s query top_k min_reviews aggregation = (Inr rows, s')"
    and "or_str aggregation DEFAULT_AGGREGATION = ''weighted''"
    and "row \<in> set rows"
  shows "final_score (scores row) =
           avg_score (scores row) * ln (1 + real (review_count (scores row)))
           * sqrt (if get_query_sentiment e (normalize_text e query) = ''negative''
                   then (real (negative_reviews (scores row)) + 1)
                        / (real (positive_reviews (scores row))
                           + real (neutral_reviews (scores row)) + 1)
                   else (real (positive_reviews (scores row)) + 1)
                        / (real (negative_reviews (scores row)) + 1))"
proof -
  let ?qs = "or_str (Some (get_query_sentiment e (normalize_text e query))) ''neutral''"
  from search_places_rows [OF assms(1) assms(3)] assms(2)
  obtain pss0 pss where "set_final_score ''weighted'' ?qs pss0 = Inr pss"
    and "scores row \<in> set pss"
    by auto
  from set_final_score_row [OF this]
  obtain ps where "scores row =
      ps\<lparr>final_score := avg_score ps * log1p (real (review_count ps))
                           * np_sqrt (sentiment_ratio ?qs ps)\<rparr>"
    by auto
  then show ?thesis
    by (simp add: log1p_def np_sqrt_def sentiment_ratio_def or_str_negative)
qed

text \<open>C3 on the small corpus: two negative reviews of one place under a negative query.\<close>

theorem c3_weighted_final_score_witness:
  "search_places demo_env fresh ''- bad service'' (Some 0) (Some 2) None = (Inr [cafe_row], searched)
   \<and> or_str None DEFAULT_AGGREGATION = ''weighted''
   \<and> cafe_row \<in> set [cafe_row]
   \<and> get_query_sentiment demo_env (normalize_text demo_env ''- bad service'') = ''negative''
   \<and> final_score (scores cafe_row) = 1.85 * ln (1 + 2) * sqrt ((2 + 1) / (0 + 0 + 1))"
proof -
  have agg: "or_str None DEFAULT_AGGREGATION = ''weighted''"
    by (simp add: or_str_def DEFAULT_AGGREGATION_def)
  have fields: "avg_score (scores cafe_row) = 1.85" "review_count (scores cafe_row) = 2"
    "negative_reviews (scores cafe_row) = 2" "positive_reviews (scores cafe_row) = 0"
    "neutral_reviews (scores cafe_row) = 0"
    by (simp_all add: cafe_row_def cafe_scores_def)
  from c3_weighted_final_score [OF demo_search_places_weighted agg, of cafe_row]
  have "final_score (scores cafe_row) = 1.85 * ln (1 + 2) * sqrt ((2 + 1) / (0 + 0 + 1))"
    by (simp add: demo_normalize demo_query_sentiment fields)
  then show ?thesis
    using demo_search_places_weighted agg
    by (simp add: demo_normalize demo_query_sentiment)
qed

text \<open>
  C4, as stated, fails: the weights are positive, so they keep the sign of the similarity
  and clamp nothing. Review 0 with similarity -0.75 under the neutral query
  \<open>quiet place\<close> is scored \<open>-0.75 * 0.8 * 1.0 = -0.6\<close> at line 198.
\<close>

theorem c4_negative_similarity_counterexample:
  "similarity_score (score_row demo_env ''neutral'' (0, 7, demo_reviews ! 0, - 0.75)) = - 0.75
   \<and> sentiment_weight (score_row demo_env ''neutral'' (0, 7, demo_reviews ! 0, - 0.75)) = 0.8
   \<and> sentiment_alignment (score_row demo_env ''neutral'' (0, 7, demo_reviews ! 0, - 0.75)) = 1
   \<and> final_review_score (score_row demo_env ''neutral'' (0, 7, demo_reviews ! 0, - 0.75)) = - 0.6
   \<and> \<not> 0 \<le> final_review_score (score_row demo_env ''neutral'' (0, 7, demo_reviews ! 0, - 0.75))"
  using demo_negative_similarity by simp

text \<open>
  C4, amended. The sentiment weight and the sentiment alignment are positive, so the
  \<open>final_review_score\<close> of a scored candidate has the sign of its similarity: negative for a
  negative similarity, at least 0 otherwise. The threshold filter removes every candidate
  whose score is not above the positive minimum, so every scored review that
  \<open>search_reviews\<close> returns and every scored review of the capped set that feeds the
  aggregation and the cache has a score above 0, and every place that \<open>search_places\<close>
  returns has a \<open>final_score\<close> of at least 0.
\<close>

theorem c4_scores_after_threshold:
  "0 < sentiment_to_weight label \<and> 0 < align_sentiment qs label
   \<and> (d < 0 \<longrightarrow> final_review_score (score_row e qs (j, p, r, d)) < 0)
   \<and> (0 \<le> d \<longrightarrow> 0 \<le> final_review_score (score_row e qs (j, p, r, d)))
   \<and> (search_reviews e s query k = (Inr revs, s1) \<longrightarrow>
      (\<forall>x\<in>set revs. 0 < final_review_score x))
   \<and> (search_reviews e s query 300 = (Inr rel, s2) \<longrightarrow>
      (\<forall>x\<in>set (per_place_cap rel). 0 < final_review_score x))
   \<and> (search_places e s query top_k min_reviews aggregation = (Inr rows, s') \<longrightarrow>
      (\<forall>row\<in>set rows. 0 \<le> final_score (scores row)))"
proof (intro conjI impI ballI)
  show "0 < sentiment_to_weight label"
    by (rule sentiment_to_weight_pos)
  show "0 < align_sentiment qs label"
    by (rule align_sentiment_pos)
next
  assume "d < 0"
  then show "final_review_score (score_row e qs (j, p, r, d)) < 0"
    using score_row_sign by blast
next
  assume "0 \<le> d"
  then show "0 \<le> final_review_score (score_row e qs (j, p, r, d))"
    using score_row_sign by blast
next
  fix x
  assume "search_reviews e s query k = (Inr revs, s1)" and "x \<in> set revs"
  then show "0 < final_review_score x"
    by (rule search_reviews_positive)
next
  fix x
  assume "search_reviews e s query 300 = (Inr rel, s2)" and "x \<in> set (per_place_cap rel)"
  then show "0 < final_review_score x"
    by (rule per_place_cap_positive)
next
  fix row
  assume sp: "search_places e s query top_k min_reviews aggregation = (Inr rows, s')"
    and row: "row \<in> set rows"
  from search_places_rows [OF sp row] obtain rel s3 pss where
    sr: "search_reviews e s query 300 = (Inr rel, s3)"
    and fs: "set_final_score (or_str aggregation DEFAULT_AGGREGATION)
              (or_str (Some (get_query_sentiment e (normalize_text e query))) ''neutral'')
              (filter (\<lambda>ps. or_int min_reviews DEFAULT_MIN_REVIEWS \<le> int (review_count ps))
                 (map (aggregate_place (per_place_cap rel)) (group_keys (per_place_cap rel))))
              = Inr pss"
    and mem: "scores row \<in> set pss"
    by blast
  have "\<forall>r\<in>set (per_place_cap rel). 0 \<le> final_review_score r"
    using per_place_cap_positive [OF sr] by fastforce
  then have "\<forall>ps\<in>set (filter (\<lambda>ps. or_int min_reviews DEFAULT_MIN_REVIEWS \<le> int (review_count ps))
                 (map (aggregate_place (per_place_cap rel)) (group_keys (per_place_cap rel)))).
               0 \<le> avg_score ps \<and> 0 \<le> max_score ps"
    using aggregate_place_nonneg by auto
  with fs mem show "0 \<le> final_score (scores row)"
    by (rule set_final_score_nonneg)
qed

text \<open>
  C4 on the small corpus: the neutral query, whose candidate of similarity -0.75 is scored
  below 0 and not returned, and the negative query with its ranked place.
\<close>

theorem c4_scores_after_threshold_witness:
  "final_review_score (score_row demo_env ''neutral'' (0, 7, demo_reviews ! 0, - 0.75)) < 0
   \<and> 0 \<le> final_review_score (score_row demo_env ''neutral'' (2, 7, demo_reviews ! 2, 0.25))
   \<and> search_reviews demo_env fresh ''quiet place'' 300 = (Inr [row4_neutral], quiet_session)
   \<and> 0 < final_review_score row4_neutral
   \<and> search_reviews demo_env fresh ''- bad service'' 300 =
       (Inr [row5, row0, row4], searched\<lparr>last_relevant_reviews := None\<rparr>)
   \<and> per_place_cap [row5, row0, row4] = [row5, row0, row4]
   \<and> 0 < final_review_score row5 \<and> 0 < final_review_score row0 \<and> 0 < final_review_score row4
   \<and> search_places demo_env fresh ''- bad service'' (Some 0) (Some 2) None
       = (Inr [cafe_row], searched)
   \<and> 0 \<le> final_score (scores cafe_row)"
  using c4_scores_after_threshold [where e = demo_env and s = fresh and query = "''quiet place''"
      and k = 300 and revs = "[row4_neutral]" and ?s1.0 = quiet_session
      and qs = "''neutral''" and d = "- 0.75" and j = 0 and p = 7 and r = "demo_reviews ! 0"]
    c4_scores_after_threshold [where qs = "''neutral''" and d = "0.25" and j = 2 and p = 7
      and r = "demo_reviews ! 2" and e = demo_env]
    c4_scores_after_threshold [where e = demo_env and s = fresh and query = "''- bad service''"
      and k = 300 and revs = "[row5, row0, row4]"
      and ?s1.0 = "searched\<lparr>last_relevant_reviews := None\<rparr>" and rel = "[row5, row0, row4]"
      and ?s2.0 = "searched\<lparr>last_relevant_reviews := None\<rparr>" and top_k = "Some 0"
      and min_reviews = "Some 2" and aggregation = None and rows = "[cafe_row]" and s' = searched]
  by (simp add: demo_search_reviews demo_search_places_weighted demo_per_place_cap demo_quiet)

text \<open>
  C6. When \<open>search_reviews\<close> finds reviews, the set that feeds the aggregation, which is
  also the set written to the cache, holds at most 15 reviews of any place; it is drawn
  from the retrieved reviews, and a retrieved review that it leaves out scores no higher
  than any review of the same place that it keeps. The \<open>review_count\<close> of every returned
  place is the number of reviews of that place in the capped set.
\<close>

theorem c6_per_place_cap:
  assumes "search_reviews e s query 300 = (Inr rel, s1)" and "rel \<noteq> []"
    and "search_places e s query top_k min_reviews aggregation = (res, s')"
  shows "last_relevant_reviews s' = Some (per_place_cap rel)
     \<and> length (filter (\<lambda>r. place_firm_id r = p) (per_place_cap rel)) \<le> 15
     \<and> set (per_place_cap rel) \<subseteq> set rel
     \<and> (kept \<in> set (per_place_cap rel) \<and> dropped \<in> set rel
          \<and> dropped \<notin> set (per_place_cap rel)
          \<and> place_firm_id dropped = place_firm_id kept
        \<longrightarrow> final_review_score dropped \<le> final_review_score kept)
     \<and> (\<forall>rows. res = Inr rows \<longrightarrow>
          (\<forall>row\<in>set rows. review_count (scores row) =
             length (filter (\<lambda>r. place_firm_id r = ps_place_firm_id (scores row))
                       (per_place_cap rel))))"
proof (intro conjI impI allI ballI)
  from assms(3) search_places_ranked [OF assms(1,2), of top_k min_reviews aggregation]
  show "last_relevant_reviews s' = Some (per_place_cap rel)"
    by auto
  show "length (filter (\<lambda>r. place_firm_id r = p) (per_place_cap rel)) \<le> 15"
    by (simp add: filter_per_place_cap)
  show "set (per_place_cap rel) \<subseteq> set rel"
    by (rule set_per_place_cap)
next
  assume "kept \<in> set (per_place_cap rel) \<and> dropped \<in> set rel
          \<and> dropped \<notin> set (per_place_cap rel)
          \<and> place_firm_id dropped = place_firm_id kept"
  then show "final_review_score dropped \<le> final_review_score kept"
    using per_place_cap_best by blast
next
  fix rows row
  assume "res = Inr rows" and "row \<in> set rows"
  with assms search_places_review_count [of e s query top_k min_reviews aggregation rows s' row]
  show "review_count (scores row) =
          length (filter (\<lambda>r. place_firm_id r = ps_place_firm_id (scores row)) (per_place_cap rel))"
    by auto
qed

text \<open>C6 on the busy place: 17 reviews retrieved, 15 kept and counted.\<close>

theorem c6_per_place_cap_witness:
  "search_reviews busy_env fresh ''+ good'' 300 = (Inr (map busy_row [0..<17]), busy_session None)
   \<and> map busy_row [0..<17] \<noteq> []
   \<and> search_places busy_env fresh ''+ good'' None None (Some ''mean'') =
       (Inr [bistro_row], busy_session (Some (map busy_row [0..<15])))
   \<and> per_place_cap (map busy_row [0..<17]) = map busy_row [0..<15]
   \<and> length (filter (\<lambda>r. place_firm_id r = 1) (map busy_row [0..<15])) = 15
   \<and> review_count (scores bistro_row) = 15
   \<and> final_review_score (busy_row 16) \<le> final_review_score (busy_row 14)"
proof -
  have ne: "map busy_row [0..<17] \<noteq> []"
    by simp
  from c6_per_place_cap [OF busy_search_reviews ne busy_search_places, of 1 "busy_row 14" "busy_row 16"]
  have "final_review_score (busy_row 16) \<le> final_review_score (busy_row 14)"
    by (simp only: busy_per_place_cap busy_facts) simp
  with busy_search_reviews busy_search_places busy_per_place_cap busy_facts ne show ?thesis
    by simp
qed

text \<open>
  C5, as stated, fails. With the unknown strategy name \<open>median\<close> and two reviews required,
  the call raises, but only after the reviews were scored and written to the cache: the
  session it leaves is \<open>searched\<close>, not \<open>fresh\<close>. With the default of three reviews no
  place qualifies and the call returns an empty result instead of raising, as it does
  when no review is retrieved. The empty name is replaced by the default strategy and a
  place is ranked.
\<close>

theorem c5_unknown_aggregation_counterexample:
  "search_places demo_env fresh ''- bad service'' None (Some 2) (Some ''median'') =
     (Inl InvalidAggregation, searched)
   \<and> last_relevant_reviews fresh = None
   \<and> last_relevant_reviews searched = Some [row5, row0, row4]
   \<and> search_places demo_env fresh ''- bad service'' None None (Some ''median'') = (Inr [], searched)
   \<and> search_places demo_env fresh ''nothing here'' None None (Some ''median'') =
       (Inr [], fresh\<lparr>last_query_sentiment := Some ''neutral'', index_calls := 1\<rparr>)
   \<and> search_places demo_env fresh ''- bad service'' (Some 0) (Some 2) (Some []) =
       (Inr [cafe_row], searched)"
  using demo_unknown_raises demo_unknown_no_place demo_unknown_no_review demo_empty_name
  by (simp add: searched_def fresh_def)

text \<open>
  C5, amended. For a strategy name that is not \<open>mean\<close>, \<open>max\<close>, \<open>weighted\<close> or empty,
  \<open>search_places\<close> never returns a place. The name is checked at step 4: when
  \<open>search_reviews\<close> returns at least one review and some place has \<open>min_reviews\<close> capped
  reviews, the call raises the invalid-aggregation error, and whenever it raises that
  error the reviews have been retrieved, scored and capped and the capped set is in the
  cache. A query that normalizes to the empty string raises the invalid-query error first.
  An empty or missing name is replaced by \<open>weighted\<close>.
\<close>

theorem c5_unknown_aggregation:
  assumes "a \<notin> {''mean'', ''max'', ''weighted'', []}"
  shows "(normalize_text e query = [] \<longrightarrow>
            search_places e s query top_k min_reviews (Some a) = (Inl InvalidQuery, s))
       \<and> (search_reviews e s query 300 = (Inr rel, s1) \<and> rel \<noteq> []
            \<and> (\<exists>p\<in>set (group_keys (per_place_cap rel)).
                  or_int min_reviews DEFAULT_MIN_REVIEWS
                    \<le> int (length (filter (\<lambda>r. place_firm_id r = p) (per_place_cap rel)))) \<longrightarrow>
            search_places e s query top_k min_reviews (Some a) =
              (Inl InvalidAggregation, s1\<lparr>last_relevant_reviews := Some (per_place_cap rel)\<rparr>))
       \<and> (search_places e s query top_k min_reviews (Some a) = (Inl InvalidAggregation, s') \<longrightarrow>
            (\<exists>found s2. search_reviews e s query 300 = (Inr found, s2) \<and> found \<noteq> []
               \<and> s' = s2\<lparr>last_relevant_reviews := Some (per_place_cap found)\<rparr>))
       \<and> (search_places e s query top_k min_reviews (Some a) = (Inr rows, s') \<longrightarrow> rows = [])
       \<and> search_places e s query top_k min_reviews (Some [])
           = search_places e s query top_k min_reviews (Some ''weighted'')
       \<and> search_places e s query top_k min_reviews None
           = search_places e s query top_k min_reviews (Some ''weighted'')"
proof -
  from assms have a: "or_str (Some a) DEFAULT_AGGREGATION = a" "a \<notin> {''mean'', ''max'', ''weighted''}"
    by (simp_all add: or_str_def)
  have ranked: "search_places e s query top_k min_reviews (Some a) =
              (if \<exists>p\<in>set (group_keys (per_place_cap rel)).
                    or_int min_reviews DEFAULT_MIN_REVIEWS
                      \<le> int (length (filter (\<lambda>r. place_firm_id r = p) (per_place_cap rel)))
               then Inl InvalidAggregation else Inr [],
               s1\<lparr>last_relevant_reviews := Some (per_place_cap rel)\<rparr>)"
    if "search_reviews e s query 300 = (Inr rel, s1)" and "rel \<noteq> []" for rel s1
    using search_places_ranked [OF that, of top_k min_reviews "Some a"]
    by (simp only: a rank_places_unknown [OF a(2)])
  have raised: "\<exists>found s2. search_reviews e s query 300 = (Inr found, s2) \<and> found \<noteq> []
               \<and> s' = s2\<lparr>last_relevant_reviews := Some (per_place_cap found)\<rparr>"
    if sp: "search_places e s query top_k min_reviews (Some a) = (Inl InvalidAggregation, s')"
  proof -
    obtain res s2 where sr: "search_reviews e s query 300 = (res, s2)"
      by (cases "search_reviews e s query 300")
    show ?thesis
    proof (cases res)
      case (Inl err)
      with sr search_reviews_error [of e s query 300 err s2] sp show ?thesis
        by (auto simp: search_places_error)
    next
      case (Inr found)
      show ?thesis
      proof (cases "found = []")
        case True
        with sr Inr sp show ?thesis
          by (simp add: search_places_no_reviews)
      next
        case False
        from sr Inr have "search_reviews e s query 300 = (Inr found, s2)"
          by simp
        with ranked [OF this False] sp False show ?thesis
          by (auto split: if_splits)
      qed
    qed
  qed
  have "rows = []" if sp: "search_places e s query top_k min_reviews (Some a) = (Inr rows, s')"
  proof (rule ccontr)
    assume "rows \<noteq> []"
    then obtain row where "row \<in> set rows"
      by (cases rows) auto
    from search_places_rows [OF sp this] a show False
      by (auto simp: set_final_score_unknown)
  qed
  moreover have "search_places e s query top_k min_reviews (Some [])
           = search_places e s query top_k min_reviews (Some ''weighted'')"
    "search_places e s query top_k min_reviews None
           = search_places e s query top_k min_reviews (Some ''weighted'')"
    by (simp_all add: search_places_def or_str_def DEFAULT_AGGREGATION_def)
  ultimately show ?thesis
    using ranked raised by (simp add: search_places_invalid)
qed

text \<open>C5 on the small corpus: the unknown name raises once two reviews suffice.\<close>

theorem c5_unknown_aggregation_witness:
  "''median'' \<notin> {''mean'', ''max'', ''weighted'', []}
   \<and> search_reviews demo_env fresh ''- bad service'' 300 =
       (Inr [row5, row0, row4], searched\<lparr>last_relevant_reviews := None\<rparr>)
   \<and> search_places demo_env fresh ''- bad service'' None (Some 2) (Some ''median'') =
       (Inl InvalidAggregation, searched)
   \<and> normalize_text demo_env ''   '' = []
   \<and> search_places demo_env fresh ''   '' None None (Some ''median'') = (Inl InvalidQuery, fresh)"
proof -
  have a: "''median'' \<notin> {''mean'', ''max'', ''weighted'', []}"
    by simp
  note blank_case = c5_unknown_aggregation [OF a, where e = demo_env and query = "''   ''"
      and s = fresh and top_k = None and min_reviews = None, THEN conjunct1]
  from blank_case demo_blank
  have blank: "search_places demo_env fresh ''   '' None None (Some ''median'')
      = (Inl InvalidQuery, fresh)"
    by (rule mp)
  have "7 \<in> set (group_keys [row5, row0, row4])"
    by (simp only: demo_keys) simp
  moreover have "or_int (Some 2) DEFAULT_MIN_REVIEWS
      \<le> int (length (filter (\<lambda>r. place_firm_id r = 7) [row5, row0, row4]))"
    by (simp add: row5_def row0_def row4_def or_int_def)
  ultimately have two: "\<exists>p\<in>set (group_keys [row5, row0, row4]).
      or_int (Some 2) DEFAULT_MIN_REVIEWS
        \<le> int (length (filter (\<lambda>r. place_firm_id r = p) [row5, row0, row4]))"
    by (rule bexI [rotated])
  have ne: "[row5, row0, row4] \<noteq> []"
    by simp
  note raise_case = c5_unknown_aggregation [OF a, where e = demo_env
      and query = "''- bad service''" and s = fresh and top_k = None and min_reviews = "Some 2"
      and rel = "[row5, row0, row4]" and ?s1.0 = "searched\<lparr>last_relevant_reviews := None\<rparr>",
      THEN conjunct2, THEN conjunct1, unfolded demo_per_place_cap]
  from demo_search_reviews ne two
  have "search_places demo_env fresh ''- bad service'' None (Some 2) (Some ''median'')
      = (Inl InvalidAggregation,
         searched\<lparr>last_relevant_reviews := None,
                  last_relevant_reviews := Some [row5, row0, row4]\<rparr>)"
    by (intro raise_case [THEN mp] conjI)
  moreover have "searched\<lparr>last_relevant_reviews := None,
      last_relevant_reviews := Some [row5, row0, row4]\<rparr> = searched"
    by (simp add: searched_def)
  ultimately
  have raised: "search_places demo_env fresh ''- bad service'' None (Some 2) (Some ''median'')
      = (Inl InvalidAggregation, searched)"
    by (simp only:)
  from a blank raised demo_search_reviews demo_blank
  show ?thesis
    by (intro conjI)
qed

text \<open>
  C8, as stated, fails: after a search has filled the cache, a call with a blank query
  leaves the whole cache as it was, and a call that retrieves nothing returns normally
  with the new query sentiment stored beside the scored reviews of the earlier query.
\<close>

theorem c8_session_cache_counterexample:
  "last_relevant_reviews searched = Some [row5, row0, row4]
   \<and> last_query_sentiment searched = Some ''negative''
   \<and> search_places demo_env searched ''   '' None None None = (Inl InvalidQuery, searched)
   \<and> search_places demo_env searched ''nothing here'' None None None =
       (Inr [], searched\<lparr>last_query_sentiment := Some ''neutral'', index_calls := 2\<rparr>)
   \<and> last_relevant_reviews
        (searched\<lparr>last_query_sentiment := Some ''neutral'', index_calls := 2\<rparr>)
       = Some [row5, row0, row4]"
  using demo_blank_after_search demo_nothing_after_search by (simp add: searched_def)

text \<open>
  C8, amended. A \<open>search_places\<close> call whose query normalizes to the empty string leaves
  the session as it was. Every other call stores the sentiment label of its query. A call
  for which \<open>search_reviews\<close> returns at least one review leaves the session with the
  per-place-capped scored reviews, the query's label and one more index call, and nothing
  else changed, whatever the call then returns or raises. \<open>get_place_highlights\<close> and
  \<open>get_place_sentiment_stats\<close> leave the session as it was.
\<close>

theorem c8_session_cache:
  "(normalize_text e query = [] \<longrightarrow>
      snd (search_places e s query top_k min_reviews aggregation) = s)
   \<and> (normalize_text e query \<noteq> [] \<longrightarrow>
      last_query_sentiment (snd (search_places e s query top_k min_reviews aggregation))
        = Some (get_query_sentiment e (normalize_text e query)))
   \<and> (search_reviews e s query 300 = (Inr rel, s1) \<and> rel \<noteq> [] \<longrightarrow>
      snd (search_places e s query top_k min_reviews aggregation) =
        s\<lparr>last_relevant_reviews := Some (per_place_cap rel),
          last_query_sentiment := Some (get_query_sentiment e (normalize_text e query)),
          index_calls := index_calls s + 1\<rparr>)
   \<and> snd (get_place_highlights e s pid k) = s
   \<and> snd (get_place_sentiment_stats s pid) = s"
proof -
  have "snd (search_places e s query top_k min_reviews aggregation) =
        s\<lparr>last_relevant_reviews := Some (per_place_cap rel),
          last_query_sentiment := Some (get_query_sentiment e (normalize_text e query)),
          index_calls := index_calls s + 1\<rparr>"
    if sr: "search_reviews e s query 300 = (Inr rel, s1)" and ne: "rel \<noteq> []"
  proof -
    from sr have "normalize_text e query \<noteq> []"
      by (rule search_reviews_valid)
    from search_reviews_session [OF this, of s 300] sr
    have "s1 = s\<lparr>last_query_sentiment := Some (get_query_sentiment e (normalize_text e query)),
                 index_calls := index_calls s + 1\<rparr>"
      by simp
    with search_places_ranked [OF sr ne, of top_k min_reviews aggregation] show ?thesis
      by simp
  qed
  then show ?thesis
    by (simp add: search_places_invalid search_places_session get_place_highlights_session
        get_place_sentiment_stats_session)
qed

text \<open>C8 on the small corpus.\<close>

theorem c8_session_cache_witness:
  "normalize_text demo_env ''   '' = []
   \<and> snd (search_places demo_env searched ''   '' None None None) = searched
   \<and> search_reviews demo_env fresh ''- bad service'' 300 =
       (Inr [row5, row0, row4], searched\<lparr>last_relevant_reviews := None\<rparr>)
   \<and> snd (search_places demo_env fresh ''- bad service'' None None (Some ''median'')) = searched
   \<and> last_query_sentiment (snd (search_places demo_env searched ''nothing here'' None None None))
       = Some ''neutral''"
proof -
  have n: "normalize_text demo_env ''nothing here'' = ''nothing here''"
    "get_query_sentiment demo_env ''nothing here'' = ''neutral''"
    by code_simp+
  from c8_session_cache [where e = demo_env and query = "''   ''" and s = searched
      and top_k = None and min_reviews = None and aggregation = None]
  have blank: "snd (search_places demo_env searched ''   '' None None None) = searched"
    by (simp add: demo_blank)
  from c8_session_cache [where e = demo_env and query = "''nothing here''" and s = searched
      and top_k = None and min_reviews = None and aggregation = None]
  have other: "last_query_sentiment
      (snd (search_places demo_env searched ''nothing here'' None None None)) = Some ''neutral''"
    by (simp add: n)
  have upd: "fresh\<lparr>last_relevant_reviews := Some [row5, row0, row4],
      last_query_sentiment := Some ''negative'', index_calls := index_calls fresh + 1\<rparr> = searched"
    by (simp add: fresh_def searched_def)
  from c8_session_cache [where e = demo_env and query = "''- bad service''" and s = fresh
      and top_k = None and min_reviews = None and aggregation = "Some ''median''"
      and rel = "[row5, row0, row4]" and ?s1.0 = "searched\<lparr>last_relevant_reviews := None\<rparr>"]
    upd
  have "snd (search_places demo_env fresh ''- bad service'' None None (Some ''median'')) = searched"
    by (simp add: demo_search_reviews demo_per_place_cap demo_normalize demo_query_sentiment)
  with blank other demo_blank demo_search_reviews show ?thesis
    by simp
qed

text \<open>
  C9, as stated, fails: place 7 is in the results of the search and has two cached
  reviews, yet \<open>get_place_highlights\<close> returns no text for \<open>top_k = 1\<close>, because the text of
  the highest-scoring review has 7 characters, and for \<open>top_k = 2\<close> it returns one text,
  that of the second review.
\<close>

theorem c9_highlights_counterexample:
  "search_places demo_env fresh ''- bad service'' (Some 0) (Some 2) None = (Inr [cafe_row], searched)
   \<and> ps_place_firm_id (scores cafe_row) = 7
   \<and> last_relevant_reviews searched = Some [row5, row0, row4]
   \<and> filter (\<lambda>r. place_firm_id r = 7) [row5, row0, row4] = [row5, row0]
   \<and> nlargest 1 final_review_score [row5, row0] = [row5]
   \<and> text_col row5 = Some ''- awful''
   \<and> fst (get_place_highlights demo_env searched 7 1) = []
   \<and> fst (get_place_highlights demo_env searched 7 2) = [''[-] - the service was terribly slow'']"
  using demo_search_places_weighted demo_highlights demo_place7 by (simp add: searched_def)

text \<open>
  C9, amended. \<open>get_place_highlights\<close> returns no text when the cache is unset or holds no
  review of the place. Otherwise it selects the \<open>top_k\<close> highest-scoring cached reviews of
  the place (all of them when there are fewer), in descending order of
  \<open>final_review_score\<close>: the selected reviews and the reviews left out are together the
  cached reviews of the place, each as often as it is cached, and no review left out
  scores higher than a selected one. It returns in that order, for each selected review
  whose text has more than 20 characters after stripping, the sentiment marker, a space
  and the normalized text. A selected review with a shorter or missing text contributes
  nothing and no other review takes its place.
\<close>

theorem c9_highlights:
  "(last_relevant_reviews s = None \<longrightarrow> fst (get_place_highlights e s pid k) = [])
   \<and> (last_relevant_reviews s = Some cached
        \<and> filter (\<lambda>r. place_firm_id r = pid) cached = [] \<longrightarrow>
      fst (get_place_highlights e s pid k) = [])
   \<and> (last_relevant_reviews s = Some cached \<longrightarrow>
      (\<exists>top rest.
         fst (get_place_highlights e s pid k) = concat (map (highlight_row e) top)
         \<and> mset (top @ rest) = mset (filter (\<lambda>r. place_firm_id r = pid) cached)
         \<and> length top = min (nat k) (length (filter (\<lambda>r. place_firm_id r = pid) cached))
         \<and> sorted_wrt (\<lambda>a b. final_review_score b \<le> final_review_score a) top
         \<and> (\<forall>t\<in>set top. \<forall>r\<in>set rest. final_review_score r \<le> final_review_score t)))
   \<and> highlight_row e r =
       (case text_col r of
          None \<Rightarrow> []
        | Some t \<Rightarrow> if 20 < length (py_strip t)
                    then [indicator (sentiment_label r) @ '' '' @ normalize_text e t] else [])
   \<and> indicator ''positive'' = ''[+]'' \<and> indicator ''negative'' = ''[-]''
   \<and> indicator ''neutral'' = ''[~]''"
proof -
  let ?place = "filter (\<lambda>r. place_firm_id r = pid) cached"
  let ?top = "nlargest k final_review_score ?place"
  have sel: "\<exists>top rest.
         fst (get_place_highlights e s pid k) = concat (map (highlight_row e) top)
         \<and> mset (top @ rest) = mset ?place
         \<and> length top = min (nat k) (length ?place)
         \<and> sorted_wrt (\<lambda>a b. final_review_score b \<le> final_review_score a) top
         \<and> (\<forall>t\<in>set top. \<forall>r\<in>set rest. final_review_score r \<le> final_review_score t)"
    if c: "last_relevant_reviews s = Some cached"
  proof -
    from nlargest_rest [of k final_review_score ?place] obtain rest where
      rest: "mset (?top @ rest) = mset ?place"
        "\<forall>t\<in>set ?top. \<forall>r\<in>set rest. final_review_score r \<le> final_review_score t"
      by blast
    from c have "fst (get_place_highlights e s pid k) = concat (map (highlight_row e) ?top)"
      by (simp add: get_place_highlights_selection)
    moreover have "length ?top = min (nat k) (length ?place)"
      by (rule length_nlargest)
    moreover have "sorted_wrt (\<lambda>a b. final_review_score b \<le> final_review_score a) ?top"
      by (rule sorted_nlargest)
    ultimately show ?thesis
      using rest by blast
  qed
  have "fst (get_place_highlights e s pid k) = []"
    if "last_relevant_reviews s = Some cached" and "?place = []"
    using that by (simp add: get_place_highlights_selection nlargest_Nil)
  moreover have "fst (get_place_highlights e s pid k) = []" if "last_relevant_reviews s = None"
    using that by (simp add: get_place_highlights_selection)
  moreover have "indicator ''positive'' = ''[+]''" "indicator ''negative'' = ''[-]''"
    "indicator ''neutral'' = ''[~]''"
    by (simp_all add: indicator_def)
  moreover have "highlight_row e r =
       (case text_col r of
          None \<Rightarrow> []
        | Some t \<Rightarrow> if 20 < length (py_strip t)
                    then [indicator (sentiment_label r) @ '' '' @ normalize_text e t] else [])"
    by (simp add: highlight_row_def)
  ultimately show ?thesis
    using sel by (intro conjI impI) blast+
qed

text \<open>C9 on the small corpus: no cache, a place that is not cached, and place 7.\<close>

theorem c9_highlights_witness:
  "last_relevant_reviews fresh = None
   \<and> fst (get_place_highlights demo_env fresh 7 2) = []
   \<and> last_relevant_reviews searched = Some [row5, row0, row4]
   \<and> filter (\<lambda>r. place_firm_id r = 8) [row5, row0, row4] = []
   \<and> fst (get_place_highlights demo_env searched 8 2) = []
   \<and> fst (get_place_highlights demo_env searched 7 2) = [''[-] - the service was terribly slow'']
   \<and> highlight_row demo_env row5 = []
   \<and> highlight_row demo_env row0 = [''[-] - the service was terribly slow'']"
proof -
  have c: "last_relevant_reviews fresh = None"
    "last_relevant_reviews searched = Some [row5, row0, row4]"
    "filter (\<lambda>r. place_firm_id r = 8) [row5, row0, row4] = []"
    by (simp_all add: fresh_def searched_def row5_def row0_def row4_def)
  have rows: "highlight_row demo_env row5 = []"
    "highlight_row demo_env row0 = [''[-] - the service was terribly slow'']"
    by code_simp+
  from c9_highlights [where s = fresh and e = demo_env and pid = 7 and k = 2, THEN conjunct1] c(1)
  have unset: "fst (get_place_highlights demo_env fresh 7 2) = []"
    by (rule mp)
  from c(2,3) have "last_relevant_reviews searched = Some [row5, row0, row4]
      \<and> filter (\<lambda>r. place_firm_id r = 8) [row5, row0, row4] = []"
    by (intro conjI)
  with c9_highlights [where s = searched and e = demo_env and pid = 8 and k = 2
      and cached = "[row5, row0, row4]", THEN conjunct2, THEN conjunct1]
  have absent: "fst (get_place_highlights demo_env searched 8 2) = []"
    by (rule mp)
  from demo_highlights(2)
  have "fst (get_place_highlights demo_env searched 7 2) = [''[-] - the service was terribly slow'']"
    by simp
  with c unset absent rows show ?thesis
    by (intro conjI)
qed

text \<open>
  C10. A \<open>top_k\<close> of 0 is replaced by 10, a \<open>min_reviews\<close> of 0 by 3, an empty or missing
  aggregation name by \<open>weighted\<close>: the call is the call with the default. So a call with
  \<open>top_k = 0\<close> returns up to 10 places, and with \<open>min_reviews = 0\<close> every returned place
  has at least 3 reviews.
\<close>

theorem c10_falsy_defaults:
  "search_places e s query (Some 0) min_reviews aggregation
     = search_places e s query (Some 10) min_reviews aggregation
   \<and> search_places e s query top_k (Some 0) aggregation
     = search_places e s query top_k (Some 3) aggregation
   \<and> search_places e s query top_k min_reviews (Some [])
     = search_places e s query top_k min_reviews (Some ''weighted'')
   \<and> search_places e s query top_k min_reviews None
     = search_places e s query top_k min_reviews (Some ''weighted'')
   \<and> (search_places e s query (Some 0) min_reviews aggregation = (Inr rows, s') \<longrightarrow>
        length rows \<le> 10)
   \<and> (search_places e s query top_k (Some 0) aggregation = (Inr rows, s') \<longrightarrow>
        (\<forall>row\<in>set rows. 3 \<le> review_count (scores row)))"
proof (intro conjI impI ballI)
  show "search_places e s query (Some 0) min_reviews aggregation
     = search_places e s query (Some 10) min_reviews aggregation"
    by (simp add: search_places_def or_int_def DEFAULT_TOP_K_def)
  show "search_places e s query top_k (Some 0) aggregation
     = search_places e s query top_k (Some 3) aggregation"
    by (simp add: search_places_def or_int_def DEFAULT_MIN_REVIEWS_def)
  show "search_places e s query top_k min_reviews (Some [])
     = search_places e s query top_k min_reviews (Some ''weighted'')"
    by (simp add: search_places_def or_str_def DEFAULT_AGGREGATION_def)
  show "search_places e s query top_k min_reviews None
     = search_places e s query top_k min_reviews (Some ''weighted'')"
    by (simp add: search_places_def or_str_def DEFAULT_AGGREGATION_def)
next
  assume "search_places e s query (Some 0) min_reviews aggregation = (Inr rows, s')"
  from search_places_length [OF this] show "length rows \<le> 10"
    by (simp add: or_int_def DEFAULT_TOP_K_def)
next
  fix row
  assume "search_places e s query top_k (Some 0) aggregation = (Inr rows, s')"
    and "row \<in> set rows"
  from search_places_review_count [OF this]
  show "3 \<le> review_count (scores row)"
    by (auto simp: or_int_def DEFAULT_MIN_REVIEWS_def)
qed

text \<open>
  C10 on the small corpus: \<open>top_k = 0\<close> returns a place; \<open>min_reviews = 0\<close> returns none, as
  3 does, where 1 returns some.
\<close>

theorem c10_falsy_defaults_witness:
  "search_places demo_env fresh ''- bad service'' (Some 0) (Some 2) None = (Inr [cafe_row], searched)
   \<and> search_places demo_env fresh ''- bad service'' (Some 10) (Some 2) (Some ''weighted'')
       = (Inr [cafe_row], searched)
   \<and> length [cafe_row] \<le> 10
   \<and> search_places demo_env fresh ''- bad service'' None (Some 0) None = (Inr [], searched)
   \<and> search_places demo_env fresh ''- bad service'' None (Some 3) None = (Inr [], searched)
   \<and> fst (search_places demo_env fresh ''- bad service'' None (Some 1) (Some ''mean'')) \<noteq> Inr []"
  using c10_falsy_defaults [where e = demo_env and s = fresh and query = "''- bad service''"
      and min_reviews = "Some 2" and aggregation = None and top_k = None
      and rows = "[cafe_row]" and s' = searched]
    c10_falsy_defaults [where e = demo_env and s = fresh and query = "''- bad service''"
      and min_reviews = "Some 2" and aggregation = "Some ''weighted''" and top_k = "Some 10"]
    c10_falsy_defaults [where e = demo_env and s = fresh and query = "''- bad service''"
      and min_reviews = None and aggregation = None and top_k = None
      and rows = "[]" and s' = searched]
    demo_search_places_weighted demo_search_places_zero_reviews demo_search_places_one_review
  by simp

end
